theory Spec2Isabelle
  imports Main "HOL-Library.Char_ord" "HOL-Library.List_Lexorder" "HOL-Library.AList"
    "HOL-Library.Multiset"
begin

section \<open>JavaScript values shared by both programs\<close>

text \<open>
  A JavaScript \<open>Set\<close> keeps its members in insertion order and \<open>add\<close> ignores a value
  that is already a member. It is modelled as the list of its members in that order.
  \<open>new Set(xs)\<close> adds the elements of \<open>xs\<close> from left to right, \<open>[...s]\<close> reads the
  members back in insertion order.
\<close>

definition Set_add :: "'a list \<Rightarrow> 'a \<Rightarrow> 'a list" where
  "Set_add s x = (if x \<in> set s then s else s @ [x])"

definition new_Set :: "'a list \<Rightarrow> 'a list" where
  "new_Set xs = foldl Set_add [] xs"

definition Set_has :: "'a list \<Rightarrow> 'a \<Rightarrow> bool" where
  "Set_has s x \<longleftrightarrow> x \<in> set s"

section \<open>The corpus builder (prepare-dictionary.js)\<close>

text \<open>
  The script works on JavaScript strings, sequences of UTF-16 code units. A code unit is
  modelled as a natural number, so that \<open>trim\<close> sees every white space character of the
  language and not only those of one byte.
\<close>

type_synonym code_unit = nat
type_synonym js_string = "code_unit list"

definition units :: "string \<Rightarrow> js_string" where
  "units s = map of_char s"

text \<open>
  \<open>s.split(sep)\<close> for a separator of one code unit: the pieces between the occurrences
  of the separator; a string without the separator (the empty string too) is one piece.
\<close>

fun split :: "code_unit \<Rightarrow> js_string \<Rightarrow> js_string list" where
  "split sep [] = [[]]"
| "split sep (c # cs) =
     (if c = sep then [] # split sep cs
      else (case split sep cs of
              [] \<Rightarrow> [[c]]
            | p # ps \<Rightarrow> (c # p) # ps))"

text \<open>
  The code units \<open>String.prototype.trim\<close> removes: the language's WhiteSpace
  (TAB, VT, FF, ZWNBSP and the space separators of Unicode) and LineTerminator
  (LF, CR, LS, PS) code points.
\<close>

definition is_white_space :: "code_unit \<Rightarrow> bool" where
  "is_white_space c \<longleftrightarrow>
     c = 9 \<or> c = 10 \<or> c = 11 \<or> c = 12 \<or> c = 13 \<or> c = 32 \<or> c = 160 \<or> c = 5760 \<or>
     (8192 \<le> c \<and> c \<le> 8202) \<or> c = 8232 \<or> c = 8233 \<or> c = 8239 \<or> c = 8287 \<or>
     c = 12288 \<or> c = 65279"

definition trim :: "js_string \<Rightarrow> js_string" where
  "trim s = rev (dropWhile is_white_space (rev (dropWhile is_white_space s)))"

text \<open>\<open>line.split(',')[0].trim()\<close>; the comma is code unit 44.\<close>

definition first_column :: "js_string \<Rightarrow> js_string" where
  "first_column line =
     (case split 44 line of [] \<Rightarrow> [] | field # _ \<Rightarrow> trim field)"

text \<open>\<open>/^[a-zA-Z]+$/.test(word)\<close>: one or more code units, each an ASCII letter.\<close>

definition is_ascii_letter :: "code_unit \<Rightarrow> bool" where
  "is_ascii_letter c \<longleftrightarrow> (65 \<le> c \<and> c \<le> 90) \<or> (97 \<le> c \<and> c \<le> 122)"

definition test_alphabetic :: "js_string \<Rightarrow> bool" where
  "test_alphabetic word \<longleftrightarrow> word \<noteq> [] \<and> list_all is_ascii_letter word"

text \<open>\<open>word && word.length > 2 && /^[a-zA-Z]+$/.test(word)\<close>; the empty string is falsy.\<close>

definition keep_word :: "js_string \<Rightarrow> bool" where
  "keep_word word \<longleftrightarrow> word \<noteq> [] \<and> 2 < length word \<and> test_alphabetic word"

definition words_of :: "js_string list \<Rightarrow> js_string list" where
  "words_of lines = filter keep_word (map first_column lines)"

definition uniqueWords :: "js_string list \<Rightarrow> js_string list" where
  "uniqueWords lines = new_Set (words_of lines)"

text \<open>The whole script: the file's content, split at LF (code unit 10), to the word list.\<close>

definition prepare_dictionary :: "js_string \<Rightarrow> js_string list" where
  "prepare_dictionary fileContent = uniqueWords (split 10 fileContent)"

text \<open>The position at which a value is first seen in a sequence.\<close>

definition first_seen :: "'a list \<Rightarrow> 'a \<Rightarrow> nat" where
  "first_seen xs x = length (takeWhile (\<lambda>y. y \<noteq> x) xs)"

section \<open>The server (server.js)\<close>

subsection \<open>Errors and files\<close>

text \<open>
  What a JavaScript function can throw here: an I/O error of \<open>fs\<close>, a rejected \<open>fetch\<close>,
  a \<open>SyntaxError\<close> of a JSON parser, a \<open>TypeError\<close> for a property read on \<open>undefined\<close>.
  A computation that may throw returns \<open>Inl\<close> of the error.
\<close>

datatype js_error = IO_error | FetchError | SyntaxError | TypeError

text \<open>
  A JSON file on disk: it does not exist (\<open>ENOENT\<close>), reading or parsing it fails with
  another error, or it holds a value.
\<close>

datatype 'a json_file = ENOENT | Fails js_error | Holds 'a

definition loadJsonFile :: "'a json_file \<Rightarrow> 'a \<Rightarrow> js_error + 'a" where
  "loadJsonFile filePath defaultValue =
     (case filePath of
        Holds data \<Rightarrow> Inr data
      | ENOENT \<Rightarrow> Inr defaultValue
      | Fails error \<Rightarrow> Inl error)"

subsection \<open>The dictionary service\<close>

text \<open>
  The body of a response of the dictionary service, as the code reads it: a sequence of
  entries. A property that the JSON leaves out reads as \<open>undefined\<close> in JavaScript and is
  \<open>None\<close> here; a property that is there has the type the service documents.
\<close>

record phonetics_item =
  p_text :: "string option"
  p_audio :: "string option"

record definition_item =
  d_definition :: "string option"
  d_example :: "string option"

record meaning_item =
  m_definitions :: "definition_item list option"
  m_synonyms :: "string list option"
  m_antonyms :: "string list option"

record entry =
  e_word :: "string option"
  e_phonetic :: "string option"
  e_phonetics :: "phonetics_item list option"
  e_meanings :: "meaning_item list option"

text \<open>
  What \<open>response.json()\<close> gives: it throws on a body that is not JSON. What \<open>fetch\<close> gives:
  it rejects (no connection, time out), or it resolves to a response with its \<open>ok\<close> flag
  (status 200 to 299) and its body.
\<close>

datatype body = Not_json | Json "entry list"

datatype fetch_result = Rejected | Response bool body

text \<open>The record \<open>getWordDetails\<close> builds; \<open>word\<close> is \<open>entry.word\<close>, \<open>undefined\<close> when absent.\<close>

record word_record =
  word :: "string option"
  pronunciation :: string
  audio :: string
  meaning :: string
  example :: string
  synonyms :: "string list"
  antonyms :: "string list"

text \<open>A string is truthy when it is not empty; \<open>undefined\<close> is falsy.\<close>

fun truthy :: "string option \<Rightarrow> bool" where
  "truthy None = False"
| "truthy (Some s) = (s \<noteq> [])"

text \<open>\<open>x || fallback\<close> for a string or \<open>undefined\<close> on the left.\<close>

definition or_else :: "string option \<Rightarrow> string \<Rightarrow> string" where
  "or_else x fallback = (case x of None \<Rightarrow> fallback | Some s \<Rightarrow> if s \<noteq> [] then s else fallback)"

text \<open>
  \<open>entry.phonetic || (entry.phonetics.find(p => p.text) || {}).text || ''\<close>.
  \<open>||\<close> does not evaluate its right side when the left is truthy; \<open>.find\<close> on \<open>undefined\<close>
  throws a TypeError.
\<close>

definition pronunciation_of :: "entry \<Rightarrow> js_error + string" where
  "pronunciation_of entry =
     (if truthy (e_phonetic entry) then Inr (or_else (e_phonetic entry) [])
      else (case e_phonetics entry of
              None \<Rightarrow> Inl TypeError
            | Some phonetics \<Rightarrow>
                Inr (case find (\<lambda>p. truthy (p_text p)) phonetics of
                       None \<Rightarrow> []
                     | Some p \<Rightarrow> or_else (p_text p) [])))"

text \<open>\<open>(entry.phonetics.find(p => p.audio && p.audio.length > 0) || {}).audio || ''\<close>.\<close>

definition audio_of :: "entry \<Rightarrow> js_error + string" where
  "audio_of entry =
     (case e_phonetics entry of
        None \<Rightarrow> Inl TypeError
      | Some phonetics \<Rightarrow>
          Inr (case find (\<lambda>p. truthy (p_audio p) \<and> 0 < length (or_else (p_audio p) []))
                      phonetics of
                 None \<Rightarrow> []
               | Some p \<Rightarrow> or_else (p_audio p) []))"

text \<open>
  \<open>entry.meanings[0]?.definitions[0]?.definition || 'No definition available.'\<close>.
  \<open>?.\<close> stops the chain only when its left side is \<open>undefined\<close>: \<open>entry.meanings[0]\<close> on a
  missing \<open>meanings\<close>, and \<open>.definitions[0]\<close> on a first meaning without \<open>definitions\<close>,
  throw a TypeError.
\<close>

definition meaning_of :: "entry \<Rightarrow> js_error + string" where
  "meaning_of entry =
     (case e_meanings entry of
        None \<Rightarrow> Inl TypeError
      | Some [] \<Rightarrow> Inr ''No definition available.''
      | Some (m # _) \<Rightarrow>
          (case m_definitions m of
             None \<Rightarrow> Inl TypeError
           | Some [] \<Rightarrow> Inr ''No definition available.''
           | Some (d # _) \<Rightarrow> Inr (or_else (d_definition d) ''No definition available.'')))"

text \<open>
  \<open>entry.meanings[0]?.definitions.find(d => d.example)?.example
     || 'No example sentence available.'\<close>.
\<close>

definition example_of :: "entry \<Rightarrow> js_error + string" where
  "example_of entry =
     (case e_meanings entry of
        None \<Rightarrow> Inl TypeError
      | Some [] \<Rightarrow> Inr ''No example sentence available.''
      | Some (m # _) \<Rightarrow>
          (case m_definitions m of
             None \<Rightarrow> Inl TypeError
           | Some definitions \<Rightarrow>
               Inr (case find (\<lambda>d. truthy (d_example d)) definitions of
                      None \<Rightarrow> ''No example sentence available.''
                    | Some d \<Rightarrow> or_else (d_example d) ''No example sentence available.'')))"

text \<open>
  \<open>entry.meanings[0]?.synonyms || []\<close> and the same for \<open>antonyms\<close>; an array, the empty
  one too, is truthy.
\<close>

definition synonyms_of :: "entry \<Rightarrow> js_error + string list" where
  "synonyms_of entry =
     (case e_meanings entry of
        None \<Rightarrow> Inl TypeError
      | Some [] \<Rightarrow> Inr []
      | Some (m # _) \<Rightarrow> Inr (case m_synonyms m of None \<Rightarrow> [] | Some xs \<Rightarrow> xs))"

definition antonyms_of :: "entry \<Rightarrow> js_error + string list" where
  "antonyms_of entry =
     (case e_meanings entry of
        None \<Rightarrow> Inl TypeError
      | Some [] \<Rightarrow> Inr []
      | Some (m # _) \<Rightarrow> Inr (case m_antonyms m of None \<Rightarrow> [] | Some xs \<Rightarrow> xs))"

text \<open>Sequencing of computations that may throw: the first error ends the evaluation.\<close>

definition and_then :: "js_error + 'a \<Rightarrow> ('a \<Rightarrow> js_error + 'b) \<Rightarrow> js_error + 'b" where
  "and_then m f = (case m of Inl error \<Rightarrow> Inl error | Inr x \<Rightarrow> f x)"

text \<open>The object literal that \<open>getWordDetails\<close> returns, its properties evaluated in order.\<close>

definition details_of :: "entry \<Rightarrow> js_error + word_record" where
  "details_of entry =
     and_then (pronunciation_of entry) (\<lambda>p.
     and_then (audio_of entry) (\<lambda>a.
     and_then (meaning_of entry) (\<lambda>m.
     and_then (example_of entry) (\<lambda>x.
     and_then (synonyms_of entry) (\<lambda>s.
     and_then (antonyms_of entry) (\<lambda>t.
       Inr \<lparr>word = e_word entry, pronunciation = p, audio = a, meaning = m,
            example = x, synonyms = s, antonyms = t\<rparr>))))))"

text \<open>
  The \<open>try\<close> block of \<open>getWordDetails\<close>: \<open>None\<close> is the \<open>null\<close> it returns for a response
  that is not ok; \<open>data[0]\<close> of an empty array is \<open>undefined\<close> and \<open>entry.word\<close> then throws.
\<close>

definition getWordDetails_try :: "fetch_result \<Rightarrow> js_error + word_record option" where
  "getWordDetails_try response =
     (case response of
        Rejected \<Rightarrow> Inl FetchError
      | Response ok b \<Rightarrow>
          if \<not> ok then Inr None
          else (case b of
                  Not_json \<Rightarrow> Inl SyntaxError
                | Json data \<Rightarrow>
                    (case data of
                       [] \<Rightarrow> Inl TypeError
                     | entry # _ \<Rightarrow> and_then (details_of entry) (\<lambda>details. Inr (Some details)))))"

text \<open>
  \<open>getWordDetails(word)\<close>; \<open>service w\<close> is what \<open>fetch\<close> gives for the word \<open>w\<close>. The
  \<open>catch\<close> block logs the error and returns \<open>null\<close>. \<open>Inl\<close> would be an exception that reaches the caller.
\<close>

definition getWordDetails :: "(string \<Rightarrow> fetch_result) \<Rightarrow> string \<Rightarrow> js_error + word_record option" where
  "getWordDetails service w =
     (case getWordDetails_try (service w) of
        Inl error \<Rightarrow> Inr None
      | Inr details \<Rightarrow> Inr details)"

subsection \<open>Notions for the statements about the enricher\<close>

text \<open>
  The first string of a sequence that is there and not empty, and the definitions of the
  first meaning group (none when there is no group).
\<close>

fun first_nonempty :: "string option list \<Rightarrow> string option" where
  "first_nonempty [] = None"
| "first_nonempty (None # xs) = first_nonempty xs"
| "first_nonempty (Some s # xs) = (if s \<noteq> [] then Some s else first_nonempty xs)"

definition first_group_definitions :: "meaning_item list \<Rightarrow> definition_item list" where
  "first_group_definitions meanings =
     (case meanings of
        [] \<Rightarrow> []
      | g # _ \<Rightarrow> (case m_definitions g of None \<Rightarrow> [] | Some definitions \<Rightarrow> definitions))"

text \<open>
  Answers of the service for the examples: an entry whose \<open>phonetic\<close> is the empty
  string and whose first definition has the empty string as its text and as its example,
  with the record \<open>getWordDetails\<close> builds from it; a service that cannot be reached, one
  that answers 404, and one whose entry has no \<open>phonetics\<close>.
\<close>

definition echo_entry :: entry where
  "echo_entry =
     \<lparr>e_word = Some ''hello'', e_phonetic = Some [],
      e_phonetics = Some [\<lparr>p_text = None, p_audio = Some []\<rparr>,
                          \<lparr>p_text = Some ''/h/'', p_audio = Some ''h.mp3''\<rparr>],
      e_meanings = Some [\<lparr>m_definitions = Some [\<lparr>d_definition = Some [], d_example = Some []\<rparr>,
                                                   \<lparr>d_definition = Some ''a call'', d_example = Some ''hello there''\<rparr>],
                          m_synonyms = Some [''hi''], m_antonyms = None\<rparr>]\<rparr>"

definition echo_service :: "string \<Rightarrow> fetch_result" where
  "echo_service w = Response True (Json [echo_entry])"

definition echo_record :: word_record where
  "echo_record =
     \<lparr>word = Some ''hello'', pronunciation = ''/h/'', audio = ''h.mp3'',
      meaning = ''No definition available.'', example = ''hello there'', synonyms = [''hi''],
      antonyms = []\<rparr>"

definition down_service :: "string \<Rightarrow> fetch_result" where
  "down_service w = Rejected"

definition missing_service :: "string \<Rightarrow> fetch_result" where
  "missing_service w = Response False Not_json"

definition broken_service :: "string \<Rightarrow> fetch_result" where
  "broken_service w = Response True (Json [echo_entry\<lparr>e_phonetics := None\<rparr>])"

subsection \<open>The history object\<close>

text \<open>
  \<open>history.json\<close> holds an object whose keys are dates and whose values are arrays of
  word records: an association list with the keys in the order of the JSON text. An
  object has each key once; the lookup of an association list takes the first.
\<close>

type_synonym history = "(string \<times> word_record list) list"

text \<open>
  \<open>history[key]\<close> reads an own property, or else one that every object inherits from
  \<open>Object.prototype\<close>, or else \<open>undefined\<close>. The inherited members are functions and
  objects, so they are truthy, as every array is.
\<close>

definition Object_prototype_keys :: "string list" where
  "Object_prototype_keys =
     [''constructor'', ''__defineGetter__'', ''__defineSetter__'', ''hasOwnProperty'',
      ''__lookupGetter__'', ''__lookupSetter__'', ''isPrototypeOf'', ''propertyIsEnumerable'',
      ''toString'', ''valueOf'', ''__proto__'', ''toLocaleString'']"

datatype 'a property = Own 'a | Inherited | Undefined

definition get_property :: "(string \<times> 'a) list \<Rightarrow> string \<Rightarrow> 'a property" where
  "get_property obj key =
     (case map_of obj key of
        Some v \<Rightarrow> Own v
      | None \<Rightarrow> if key \<in> set Object_prototype_keys then Inherited else Undefined)"

fun truthy_property :: "word_record list property \<Rightarrow> bool" where
  "truthy_property (Own records) = True"
| "truthy_property Inherited = True"
| "truthy_property Undefined = False"

text \<open>
  The date keys the server writes: \<open>new Date().toISOString().slice(0, 10)\<close>, the date in
  the format YYYY-MM-DD.
\<close>

definition is_digit :: "char \<Rightarrow> bool" where
  "is_digit c \<longleftrightarrow> c \<in> set ''0123456789''"

definition is_date_key :: "string \<Rightarrow> bool" where
  "is_date_key d \<longleftrightarrow>
     (case d of
        [y1, y2, y3, y4, s1, m1, m2, s2, d1, d2] \<Rightarrow>
          list_all is_digit [y1, y2, y3, y4, m1, m2, d1, d2] \<and> s1 = CHR ''-'' \<and> s2 = CHR ''-''
      | _ \<Rightarrow> False)"

subsection \<open>The daily update\<close>

text \<open>
  What the run cannot decide: the numbers \<open>Math.random()\<close> draws, the answers of the
  dictionary service, whether a write to a file succeeds, and what a write that fails
  leaves behind. The draws and the answers are indexed by the iteration of the loop that
  asks for them.
  \<open>Math.floor(Math.random() * n)\<close> is some index below \<open>n\<close>; the draw is a natural number
  that the model reduces modulo \<open>n\<close>, so that each index below \<open>n\<close> can be drawn.
\<close>

datatype path = WORDLIST_PATH | USED_WORDS_PATH | HISTORY_PATH

record env =
  random :: "nat \<Rightarrow> nat"
  fetch :: "nat \<Rightarrow> string \<Rightarrow> fetch_result"
  writable :: "path \<Rightarrow> bool"
  torn :: "path \<Rightarrow> bool"

record disk =
  wordlist_json :: "string list json_file"
  used_words_json :: "string list json_file"
  history_json :: "history json_file"

text \<open>
  \<open>saveJsonFile(filePath, data)\<close> is \<open>fs.writeFile\<close> with the JSON text of the data.
  \<open>fs.writeFile\<close> opens the file for writing, which truncates it, and then writes the
  text. When the write succeeds the file holds the data. When it fails, it fails either
  at the open (no permission, read-only disk), and the file is as it was before, or
  after the open (disk full, file too big): the file is then torn, it holds at most a
  part of the text, and reading it back fails in \<open>JSON.parse\<close>. The result is the file
  after the call and whether the call threw.
\<close>

definition saveJsonFile ::
  "env \<Rightarrow> path \<Rightarrow> 'a json_file \<Rightarrow> 'a \<Rightarrow> 'a json_file \<times> (js_error + unit)" where
  "saveJsonFile env filePath before data =
     (if writable env filePath then (Holds data, Inr ())
      else if torn env filePath then (Fails SyntaxError, Inl IO_error)
      else (before, Inl IO_error))"

text \<open>
  The \<open>while\<close> loop of \<open>updateDailyWords\<close>. \<open>availableWords.splice(randomIndex, 1)[0]\<close>
  takes the word at the index out of the array. The last argument is not a variable of
  the program: it records the \<open>selectedWord\<close> and the \<open>details\<close> of every iteration, for
  the statements about what a run picks.
\<close>

type_synonym pick = "string \<times> word_record option"

lemma splice_shorter:
  "xs \<noteq> [] \<Longrightarrow> length (take (k mod length xs) xs @ drop (Suc (k mod length xs)) xs) < length xs"
proof -
  assume "xs \<noteq> []"
  then have "k mod length xs < length xs" by simp
  then show ?thesis by (simp add: min_def)
qed

function loop ::
  "env \<Rightarrow> nat \<Rightarrow> string list \<Rightarrow> word_record list \<Rightarrow> string list \<Rightarrow> pick list \<Rightarrow>
   js_error + (word_record list \<times> string list \<times> pick list)" where
  "loop env i availableWords newWords usedWords picks =
     (if length newWords < 3 \<and> 0 < length availableWords then
        (let randomIndex = random env i mod length availableWords;
             selectedWord = availableWords ! randomIndex;
             remaining = take randomIndex availableWords @ drop (Suc randomIndex) availableWords
         in case getWordDetails (fetch env i) selectedWord of
              Inl error \<Rightarrow> Inl error
            | Inr None \<Rightarrow>
                loop env (Suc i) remaining newWords usedWords (picks @ [(selectedWord, None)])
            | Inr (Some details) \<Rightarrow>
                loop env (Suc i) remaining (newWords @ [details]) (Set_add usedWords selectedWord)
                  (picks @ [(selectedWord, Some details)]))
      else Inr (newWords, usedWords, picks))"
  by pat_completeness auto
termination
proof (relation "measure (\<lambda>(env, i, availableWords, rest). length availableWords)", goal_cases)
  case 1
  show ?case by simp
next
  case (2 env i availableWords newWords usedWords picks randomIndex selectedWord remaining)
  then show ?case using splice_shorter [of availableWords "random env i"] by simp
next
  case (3 env i availableWords newWords usedWords picks randomIndex selectedWord remaining)
  then show ?case using splice_shorter [of availableWords "random env i"] by simp
qed

text \<open>How a run of \<open>updateDailyWords\<close> ends.\<close>

datatype outcome =
    Already_exists
  | Not_enough_words
  | Saved
  | Failed_to_fetch
  | Thrown js_error

text \<open>
  \<open>updateDailyWords()\<close> on the date \<open>today\<close>: the disk after the run, how the run ended
  and the picks of its loop. \<open>history[today] = newWords\<close> is \<open>AList.update\<close>: a new key
  goes to the end.
\<close>

definition updateDailyWords :: "env \<Rightarrow> string \<Rightarrow> disk \<Rightarrow> disk \<times> outcome \<times> pick list" where
  "updateDailyWords env today d =
     (case loadJsonFile (history_json d) [] of
        Inl error \<Rightarrow> (d, Thrown error, [])
      | Inr history \<Rightarrow>
          if truthy_property (get_property history today) then (d, Already_exists, [])
          else
            (case loadJsonFile (wordlist_json d) [] of
               Inl error \<Rightarrow> (d, Thrown error, [])
             | Inr allWords \<Rightarrow>
                 (case loadJsonFile (used_words_json d) [] of
                    Inl error \<Rightarrow> (d, Thrown error, [])
                  | Inr used \<Rightarrow>
                      (let usedWords = new_Set used;
                           availableWords = filter (\<lambda>word. \<not> Set_has usedWords word) allWords
                       in if length availableWords < 3 then (d, Not_enough_words, [])
                          else
                            (case loop env 0 availableWords [] usedWords [] of
                               Inl error \<Rightarrow> (d, Thrown error, [])
                             | Inr (newWords, usedWords', picks) \<Rightarrow>
                                 if length newWords = 3 then
                                   (case saveJsonFile env HISTORY_PATH (history_json d)
                                           (AList.update today newWords history) of
                                      (history_file, Inl error) \<Rightarrow>
                                        (d\<lparr>history_json := history_file\<rparr>, Thrown error, picks)
                                    | (history_file, Inr _) \<Rightarrow>
                                        (case saveJsonFile env USED_WORDS_PATH
                                                (used_words_json d) usedWords' of
                                           (used_file, Inl error) \<Rightarrow>
                                             (d\<lparr>history_json := history_file,
                                                used_words_json := used_file\<rparr>,
                                              Thrown error, picks)
                                         | (used_file, Inr _) \<Rightarrow>
                                             (d\<lparr>history_json := history_file,
                                                used_words_json := used_file\<rparr>, Saved, picks)))
                                 else (d, Failed_to_fetch, picks))))))"

text \<open>
  The picks whose enrichment succeeded, as pairs of the selected word and its record,
  and the pool a run draws from: the corpus without the words of the ledger.
\<close>

fun accepted :: "pick list \<Rightarrow> (string \<times> word_record) list" where
  "accepted [] = []"
| "accepted ((w, None) # ps) = accepted ps"
| "accepted ((w, Some details) # ps) = (w, details) # accepted ps"

definition available :: "string list \<Rightarrow> string list \<Rightarrow> string list" where
  "available allWords used = filter (\<lambda>w. w \<notin> set used) allWords"

text \<open>
  What the loop, started in a state, has done when it returns: \<open>ext\<close> are the picks it
  added, in order.
\<close>

definition loop_post ::
  "env \<Rightarrow> nat \<Rightarrow> string list \<Rightarrow> word_record list \<Rightarrow> string list \<Rightarrow> pick list \<Rightarrow>
   word_record list \<Rightarrow> string list \<Rightarrow> pick list \<Rightarrow> pick list \<Rightarrow> bool" where
  "loop_post env i av nw uw ps nw' uw' ps' ext \<longleftrightarrow>
     ps' = ps @ ext \<and>
     nw' = nw @ map snd (accepted ext) \<and>
     uw' = foldl Set_add uw (map fst (accepted ext)) \<and>
     mset (map fst ext) \<subseteq># mset av \<and>
     (\<forall>k < length ext. getWordDetails (fetch env (i + k)) (fst (ext ! k)) = Inr (snd (ext ! k))) \<and>
     (length nw \<le> 3 \<longrightarrow> length nw' \<le> 3) \<and>
     (length nw' < 3 \<longrightarrow> length ext = length av)"

subsection \<open>Example runs\<close>

text \<open>
  A service that answers every word with an entry without phonetics and meanings, and
  echoes \<open>Apple\<close> in lower case; draws that always give index 0; an environment in
  which every write succeeds, one in which the write of the ledger fails at the open, and
  one in which the write of the history fails after the open; a disk with a corpus of four
  words, one of them used, and no history yet.
\<close>

definition plain_entry :: "string \<Rightarrow> entry" where
  "plain_entry w = \<lparr>e_word = Some w, e_phonetic = None, e_phonetics = Some [], e_meanings = Some []\<rparr>"

definition plain_record :: "string \<Rightarrow> word_record" where
  "plain_record w =
     \<lparr>word = Some w, pronunciation = [], audio = [], meaning = ''No definition available.'',
      example = ''No example sentence available.'', synonyms = [], antonyms = []\<rparr>"

definition lowercase_service :: "nat \<Rightarrow> string \<Rightarrow> fetch_result" where
  "lowercase_service i w = Response True (Json [plain_entry (if w = ''Apple'' then ''apple'' else w)])"

definition first_index :: "nat \<Rightarrow> nat" where
  "first_index i = 0"

definition every_write_succeeds :: "path \<Rightarrow> bool" where
  "every_write_succeeds p = True"

definition ledger_write_fails :: "path \<Rightarrow> bool" where
  "ledger_write_fails p = (p \<noteq> USED_WORDS_PATH)"

definition history_write_fails :: "path \<Rightarrow> bool" where
  "history_write_fails p = (p \<noteq> HISTORY_PATH)"

definition fails_at_open :: "path \<Rightarrow> bool" where
  "fails_at_open p = False"

definition fails_after_open :: "path \<Rightarrow> bool" where
  "fails_after_open p = True"

definition good_env :: env where
  "good_env =
     \<lparr>random = first_index, fetch = lowercase_service, writable = every_write_succeeds,
      torn = fails_at_open\<rparr>"

definition failing_env :: env where
  "failing_env =
     \<lparr>random = first_index, fetch = lowercase_service, writable = ledger_write_fails,
      torn = fails_at_open\<rparr>"

definition tearing_env :: env where
  "tearing_env =
     \<lparr>random = first_index, fetch = lowercase_service, writable = history_write_fails,
      torn = fails_after_open\<rparr>"

definition small_disk :: disk where
  "small_disk =
     \<lparr>wordlist_json = Holds [''Apple'', ''bee'', ''cat'', ''dog''],
      used_words_json = Holds [''dog''],
      history_json = ENOENT\<rparr>"

text \<open>
  The records and the picks of the example run, the disk after it, the disk after the
  run whose ledger write fails, a disk whose pool is too small, a history of two days,
  and a disk that has the history of an earlier day, before and after the run whose
  history write fails after the open.
\<close>

definition three_records :: "word_record list" where
  "three_records = [plain_record ''apple'', plain_record ''bee'', plain_record ''cat'']"

definition three_picks :: "pick list" where
  "three_picks =
     [(''Apple'', Some (plain_record ''apple'')), (''bee'', Some (plain_record ''bee'')),
      (''cat'', Some (plain_record ''cat''))]"

definition saved_disk :: disk where
  "saved_disk =
     \<lparr>wordlist_json = Holds [''Apple'', ''bee'', ''cat'', ''dog''],
      used_words_json = Holds [''dog'', ''Apple'', ''bee'', ''cat''],
      history_json = Holds [(''2024-01-02'', three_records)]\<rparr>"

definition split_disk :: disk where
  "split_disk =
     \<lparr>wordlist_json = Holds [''Apple'', ''bee'', ''cat'', ''dog''],
      used_words_json = Holds [''dog''],
      history_json = Holds [(''2024-01-02'', three_records)]\<rparr>"

definition short_disk :: disk where
  "short_disk =
     \<lparr>wordlist_json = Holds [''bee'', ''cat'', ''dog''],
      used_words_json = Holds [''dog''],
      history_json = ENOENT\<rparr>"

definition two_days :: history where
  "two_days = [(''2024-01-01'', three_records), (''2024-01-02'', three_records)]"

definition older_disk :: disk where
  "older_disk =
     \<lparr>wordlist_json = Holds [''Apple'', ''bee'', ''cat'', ''dog''],
      used_words_json = Holds [''dog''],
      history_json = Holds [(''2024-01-01'', three_records)]\<rparr>"

definition torn_disk :: disk where
  "torn_disk =
     \<lparr>wordlist_json = Holds [''Apple'', ''bee'', ''cat'', ''dog''],
      used_words_json = Holds [''dog''],
      history_json = Fails SyntaxError\<rparr>"

subsection \<open>The retrieval endpoints\<close>

text \<open>
  What a handler sends: JSON with status 200, or an error object with status 404 or 500.
  \<open>Ok_inherited\<close> is status 200 with whatever \<open>res.json\<close> makes of a member of
  \<open>Object.prototype\<close>.
\<close>

datatype reply =
    Ok_dates "string list"
  | Ok_words "word_record list"
  | Ok_inherited
  | Status_404 string
  | Status_500 string

text \<open>
  \<open>a.localeCompare(b)\<close>: negative, zero or positive. On the keys the server writes
  (digits and hyphens at fixed places) the collation of the runtime orders as the code
  units do, which is the order of \<open>string\<close> here.
\<close>

definition localeCompare :: "string \<Rightarrow> string \<Rightarrow> int" where
  "localeCompare a b = (if a < b then - 1 else if a = b then 0 else 1)"

text \<open>
  \<open>array.sort(compare)\<close>: a stable sort; \<open>compare x y > 0\<close> puts \<open>x\<close> after \<open>y\<close>.
\<close>

fun insert_sorted :: "('a \<Rightarrow> 'a \<Rightarrow> int) \<Rightarrow> 'a \<Rightarrow> 'a list \<Rightarrow> 'a list" where
  "insert_sorted compare x [] = [x]"
| "insert_sorted compare x (y # ys) =
     (if compare x y > 0 then y # insert_sorted compare x ys else x # y # ys)"

definition sort_with :: "('a \<Rightarrow> 'a \<Rightarrow> int) \<Rightarrow> 'a list \<Rightarrow> 'a list" where
  "sort_with compare xs = foldr (insert_sorted compare) xs []"

text \<open>\<open>Object.keys(history)\<close>, for keys that are not array indices: in insertion order.\<close>

definition Object_keys :: "(string \<times> 'a) list \<Rightarrow> string list" where
  "Object_keys obj = map fst obj"

text \<open>The handler of \<open>GET /api/history\<close>.\<close>

definition listDates :: "history json_file \<Rightarrow> reply" where
  "listDates history_file =
     (case loadJsonFile history_file [] of
        Inl error \<Rightarrow> Status_500 ''Failed to load history.''
      | Inr history \<Rightarrow>
          Ok_dates (sort_with (\<lambda>a b. localeCompare b a) (Object_keys history)))"

text \<open>The handler of \<open>GET /api/words/:date\<close>.\<close>

definition getWords :: "history json_file \<Rightarrow> string \<Rightarrow> reply" where
  "getWords history_file date =
     (case loadJsonFile history_file [] of
        Inl error \<Rightarrow> Status_500 ''Failed to load words.''
      | Inr history \<Rightarrow>
          (case get_property history date of
             Own records \<Rightarrow> Ok_words records
           | Inherited \<Rightarrow> Ok_inherited
           | Undefined \<Rightarrow> Status_404 ''No words found for this date.''))"

section \<open>Properties of the set model\<close>

lemma Set_add_set: "set (Set_add s x) = insert x (set s)"
  by (auto simp: Set_add_def)

lemma Set_add_distinct: "distinct s \<Longrightarrow> distinct (Set_add s x)"
  by (simp add: Set_add_def)

lemma foldl_Set_add_set: "set (foldl Set_add s xs) = set s \<union> set xs"
  by (induction xs arbitrary: s) (auto simp: Set_add_set)

lemma foldl_Set_add_distinct: "distinct s \<Longrightarrow> distinct (foldl Set_add s xs)"
  by (induction xs arbitrary: s) (auto simp: Set_add_distinct)

lemma new_Set_set: "set (new_Set xs) = set xs"
  by (simp add: new_Set_def foldl_Set_add_set)

lemma new_Set_distinct: "distinct (new_Set xs)"
  by (simp add: new_Set_def foldl_Set_add_distinct)

lemma new_Set_snoc: "new_Set (xs @ [x]) = Set_add (new_Set xs) x"
  by (simp add: new_Set_def)

lemma new_Set_nth_mem: "k < length (new_Set xs) \<Longrightarrow> new_Set xs ! k \<in> set xs"
  using new_Set_set [of xs] nth_mem [of k "new_Set xs"] by simp

section \<open>The corpus builder: which tokens it keeps, and in which order\<close>

lemma first_seen_Cons: "first_seen (a # xs) x = (if a = x then 0 else Suc (first_seen xs x))"
  by (simp add: first_seen_def)

lemma first_seen_append_mem: "x \<in> set xs \<Longrightarrow> first_seen (xs @ ys) x = first_seen xs x"
  by (induction xs) (auto simp: first_seen_def)

lemma first_seen_less: "x \<in> set xs \<Longrightarrow> first_seen xs x < length xs"
  by (induction xs) (auto simp: first_seen_def)

lemma first_seen_fresh: "x \<notin> set xs \<Longrightarrow> first_seen (xs @ [x]) x = length xs"
  by (induction xs) (auto simp: first_seen_def)

text \<open>The members of \<open>new Set(xs)\<close> stand in the order in which \<open>xs\<close> first shows them.\<close>

lemma new_Set_first_seen:
  "i < j \<Longrightarrow> j < length (new_Set xs) \<Longrightarrow>
   first_seen xs (new_Set xs ! i) < first_seen xs (new_Set xs ! j)"
proof (induction xs arbitrary: i j rule: rev_induct)
  case Nil
  then show ?case by (simp add: new_Set_def)
next
  case (snoc x xs)
  show ?case
  proof (cases "x \<in> set xs")
    case True
    then have same: "new_Set (xs @ [x]) = new_Set xs"
      by (simp add: new_Set_snoc Set_add_def new_Set_set)
    from snoc.prems same have j: "j < length (new_Set xs)" by simp
    with snoc.prems have i: "i < length (new_Set xs)" by simp
    have "first_seen xs (new_Set xs ! i) < first_seen xs (new_Set xs ! j)"
      using snoc.IH [OF snoc.prems(1) j] .
    then show ?thesis
      using new_Set_nth_mem [OF i] new_Set_nth_mem [OF j]
      by (simp only: same first_seen_append_mem)
  next
    case False
    then have ext: "new_Set (xs @ [x]) = new_Set xs @ [x]"
      by (simp add: new_Set_snoc Set_add_def new_Set_set)
    show ?thesis
    proof (cases "j < length (new_Set xs)")
      case True
      with snoc.prems have i: "i < length (new_Set xs)" by simp
      have "first_seen xs (new_Set xs ! i) < first_seen xs (new_Set xs ! j)"
        using snoc.IH [OF snoc.prems(1) True] .
      then show ?thesis
        using new_Set_nth_mem [OF i] new_Set_nth_mem [OF True] i True
        by (simp only: ext first_seen_append_mem nth_append if_True)
    next
      case nj: False
      with snoc.prems ext have j: "j = length (new_Set xs)" by simp
      with snoc.prems have i: "i < length (new_Set xs)" by simp
      have a: "(new_Set xs @ [x]) ! i = new_Set xs ! i" using i by (simp add: nth_append)
      have b: "(new_Set xs @ [x]) ! j = x" using j by simp
      have c: "first_seen (xs @ [x]) (new_Set xs ! i) = first_seen xs (new_Set xs ! i)"
        using new_Set_nth_mem [OF i] by (rule first_seen_append_mem)
      have d: "first_seen (xs @ [x]) x = length xs" using False by (rule first_seen_fresh)
      have e: "first_seen xs (new_Set xs ! i) < length xs"
        using new_Set_nth_mem [OF i] by (rule first_seen_less)
      show ?thesis unfolding ext a b c d using e .
    qed
  qed
qed

text \<open>Filtering a sequence keeps the order in which the kept values are first seen.\<close>

lemma first_seen_filter_mono:
  "P x \<Longrightarrow> P y \<Longrightarrow> x \<in> set xs \<Longrightarrow>
   first_seen (filter P xs) x < first_seen (filter P xs) y \<longleftrightarrow> first_seen xs x < first_seen xs y"
proof (induction xs)
  case Nil
  then show ?case by simp
next
  case (Cons a xs)
  show ?case
  proof (cases "a = x \<or> a = y")
    case True
    then show ?thesis using Cons.prems by (auto simp: first_seen_Cons)
  next
    case False
    with Cons.prems have "x \<in> set xs" by auto
    from Cons.IH [OF Cons.prems(1,2) this] False show ?thesis
      by (simp add: first_seen_Cons)
  qed
qed

text \<open>
  Claim C5. For every line of the raw source, the first comma-delimited field of the
  line, trimmed, is in the output of the corpus builder if and only if it is not empty,
  is longer than 2 code units and consists of ASCII letters only (the regular expression
  \<open>^[a-zA-Z]+$\<close>); the output holds nothing else; it holds no token twice; and its tokens
  stand in the order in which the lines first show them.
\<close>

theorem corpus_builder_keeps:
  "(\<forall>line \<in> set lines.
      first_column line \<in> set (uniqueWords lines) \<longleftrightarrow>
        first_column line \<noteq> [] \<and> 2 < length (first_column line) \<and>
        (\<forall>c \<in> set (first_column line). is_ascii_letter c)) \<and>
   set (uniqueWords lines) \<subseteq> first_column ` set lines \<and>
   distinct (uniqueWords lines) \<and>
   (\<forall>i j. i < j \<and> j < length (uniqueWords lines) \<longrightarrow>
      first_seen (map first_column lines) (uniqueWords lines ! i)
        < first_seen (map first_column lines) (uniqueWords lines ! j))"
proof (intro conjI ballI allI impI)
  fix line
  assume mem: "line \<in> set lines"
  have "first_column line \<in> set (uniqueWords lines) \<longleftrightarrow> keep_word (first_column line)"
    using mem by (simp add: uniqueWords_def words_of_def new_Set_set)
  also have "\<dots> \<longleftrightarrow> first_column line \<noteq> [] \<and> 2 < length (first_column line) \<and>
      (\<forall>c \<in> set (first_column line). is_ascii_letter c)"
    unfolding keep_word_def test_alphabetic_def list_all_iff by blast
  finally show "first_column line \<in> set (uniqueWords lines) \<longleftrightarrow>
      first_column line \<noteq> [] \<and> 2 < length (first_column line) \<and>
      (\<forall>c \<in> set (first_column line). is_ascii_letter c)" .
next
  show "set (uniqueWords lines) \<subseteq> first_column ` set lines"
    by (auto simp: uniqueWords_def words_of_def new_Set_set)
next
  show "distinct (uniqueWords lines)"
    by (simp add: uniqueWords_def new_Set_distinct)
next
  fix i j
  assume ij: "i < j \<and> j < length (uniqueWords lines)"
  let ?ts = "map first_column lines"
  let ?ws = "filter keep_word ?ts"
  let ?u = "new_Set ?ws"
  from ij have i: "i < length ?u" and j: "j < length ?u" and lt: "i < j"
    by (simp_all add: uniqueWords_def words_of_def)
  have mi: "?u ! i \<in> set ?ws" using i by (rule new_Set_nth_mem)
  have mj: "?u ! j \<in> set ?ws" using j by (rule new_Set_nth_mem)
  have "first_seen ?ws (?u ! i) < first_seen ?ws (?u ! j)"
    using lt j by (rule new_Set_first_seen)
  moreover have "keep_word (?u ! i)" "keep_word (?u ! j)" "?u ! i \<in> set ?ts"
    using mi mj by simp_all
  ultimately have "first_seen ?ts (?u ! i) < first_seen ?ts (?u ! j)"
    by (simp add: first_seen_filter_mono)
  then show "first_seen (map first_column lines) (uniqueWords lines ! i)
        < first_seen (map first_column lines) (uniqueWords lines ! j)"
    by (simp add: uniqueWords_def words_of_def)
qed

text \<open>
  The theorem at the lines \<open>" apple ,1"\<close>, \<open>"be,2"\<close>, \<open>"Cat"\<close>, \<open>"apple,4"\<close>, \<open>"d0g,5"\<close>:
  \<open>apple\<close> and \<open>Cat\<close> are kept, once each and in this order; \<open>be\<close> is too short and \<open>d0g\<close>
  has a digit.
\<close>

lemma corpus_example:
  "uniqueWords [units '' apple ,1'', units ''be,2'', units ''Cat'', units ''apple,4'',
     units ''d0g,5''] = [units ''apple'', units ''Cat'']"
  by (simp add: uniqueWords_def words_of_def new_Set_def Set_add_def keep_word_def
      test_alphabetic_def is_ascii_letter_def first_column_def units_def trim_def
      is_white_space_def)

theorem corpus_builder_keeps_witness:
  "first_column (units '' apple ,1'')
     \<in> set (uniqueWords [units '' apple ,1'', units ''be,2'', units ''Cat'', units ''apple,4'',
          units ''d0g,5'']) \<and>
   first_column (units ''be,2'')
     \<notin> set (uniqueWords [units '' apple ,1'', units ''be,2'', units ''Cat'', units ''apple,4'',
          units ''d0g,5'']) \<and>
   first_column (units ''d0g,5'')
     \<notin> set (uniqueWords [units '' apple ,1'', units ''be,2'', units ''Cat'', units ''apple,4'',
          units ''d0g,5'']) \<and>
   first_seen (map first_column [units '' apple ,1'', units ''be,2'', units ''Cat'',
        units ''apple,4'', units ''d0g,5'']) (units ''apple'')
     < first_seen (map first_column [units '' apple ,1'', units ''be,2'', units ''Cat'',
        units ''apple,4'', units ''d0g,5'']) (units ''Cat'')"
  using corpus_builder_keeps [of "[units '' apple ,1'', units ''be,2'', units ''Cat'',
      units ''apple,4'', units ''d0g,5'']"]
  by (simp add: corpus_example first_seen_def first_column_def units_def trim_def
      is_white_space_def is_ascii_letter_def)

section \<open>The definition enricher\<close>

lemma find_first_nonempty:
  "(case find (\<lambda>p. truthy (f p)) ps of None \<Rightarrow> fallback | Some p \<Rightarrow> or_else (f p) fallback)
   = (case first_nonempty (map f ps) of None \<Rightarrow> fallback | Some s \<Rightarrow> s)"
proof (induction ps)
  case Nil
  then show ?case by simp
next
  case (Cons p ps)
  then show ?case by (cases "f p") (auto simp: or_else_def)
qed

lemma and_then_Inr: "and_then m f = Inr y \<longleftrightarrow> (\<exists>x. m = Inr x \<and> f x = Inr y)"
  by (cases m) (auto simp: and_then_def)

lemma and_then_Inr_left [simp]: "and_then (Inr x) f = f x"
  by (simp add: and_then_def)

lemma and_then_Inl_left [simp]: "and_then (Inl e) f = Inl e"
  by (simp add: and_then_def)

lemma getWordDetails_Some:
  "getWordDetails service w = Inr (Some d) \<longleftrightarrow>
   (\<exists>entry rest. service w = Response True (Json (entry # rest)) \<and> details_of entry = Inr d)"
proof (cases "service w")
  case Rejected
  then show ?thesis by (simp add: getWordDetails_def getWordDetails_try_def)
next
  case (Response ok b)
  show ?thesis
  proof (cases b)
    case Not_json
    with Response show ?thesis by (simp add: getWordDetails_def getWordDetails_try_def)
  next
    case (Json data)
    show ?thesis
    proof (cases data)
      case Nil
      with Response Json show ?thesis by (simp add: getWordDetails_def getWordDetails_try_def)
    next
      case (Cons entry rest)
      with Response Json show ?thesis
        by (cases "details_of entry") (auto simp: getWordDetails_def getWordDetails_try_def)
    qed
  qed
qed

lemma pronunciation_of_eq:
  "e_phonetics entry = Some phonetics \<Longrightarrow>
   pronunciation_of entry =
     Inr (case first_nonempty (e_phonetic entry # map p_text phonetics) of
            None \<Rightarrow> [] | Some s \<Rightarrow> s)"
  using find_first_nonempty [where f = p_text and ps = phonetics and fallback = "[]"]
  by (cases "e_phonetic entry") (auto simp: pronunciation_of_def or_else_def)

lemma audio_test:
  "(\<lambda>p::phonetics_item. truthy (p_audio p) \<and> 0 < length (or_else (p_audio p) []))
   = (\<lambda>p. truthy (p_audio p))"
proof
  fix p :: phonetics_item
  show "(truthy (p_audio p) \<and> 0 < length (or_else (p_audio p) [])) = truthy (p_audio p)"
    by (cases "p_audio p") (auto simp: or_else_def)
qed

lemma audio_of_eq:
  "e_phonetics entry = Some phonetics \<Longrightarrow>
   audio_of entry =
     Inr (case first_nonempty (map p_audio phonetics) of None \<Rightarrow> [] | Some s \<Rightarrow> s)"
  using find_first_nonempty [where f = p_audio and ps = phonetics and fallback = "[]"]
  unfolding audio_of_def audio_test by simp

lemma meaning_of_eq:
  "e_meanings entry = Some meanings \<Longrightarrow>
   (\<forall>g gs. meanings = g # gs \<longrightarrow> m_definitions g \<noteq> None) \<Longrightarrow>
   meaning_of entry =
     Inr (case first_nonempty (map d_definition (take 1 (first_group_definitions meanings))) of
            None \<Rightarrow> ''No definition available.'' | Some s \<Rightarrow> s)"
  by (auto simp: meaning_of_def or_else_def first_group_definitions_def
      split: list.splits option.splits)

lemma example_of_eq:
  assumes me: "e_meanings entry = Some meanings"
    and defs: "\<forall>g gs. meanings = g # gs \<longrightarrow> m_definitions g \<noteq> None"
  shows "example_of entry =
     Inr (case first_nonempty (map d_example (first_group_definitions meanings)) of
            None \<Rightarrow> ''No example sentence available.'' | Some s \<Rightarrow> s)"
proof (cases meanings)
  case Nil
  with me show ?thesis by (simp add: example_of_def first_group_definitions_def)
next
  case (Cons g gs)
  with defs obtain definitions where d: "m_definitions g = Some definitions" by auto
  with me Cons show ?thesis
    using find_first_nonempty [where f = d_example and ps = definitions
        and fallback = "''No example sentence available.''"]
    by (simp add: example_of_def first_group_definitions_def)
qed

lemma synonyms_of_eq:
  "e_meanings entry = Some meanings \<Longrightarrow>
   synonyms_of entry =
     Inr (case meanings of [] \<Rightarrow> [] | g # _ \<Rightarrow> (case m_synonyms g of None \<Rightarrow> [] | Some xs \<Rightarrow> xs))"
  by (auto simp: synonyms_of_def split: list.splits option.splits)

lemma antonyms_of_eq:
  "e_meanings entry = Some meanings \<Longrightarrow>
   antonyms_of entry =
     Inr (case meanings of [] \<Rightarrow> [] | g # _ \<Rightarrow> (case m_antonyms g of None \<Rightarrow> [] | Some xs \<Rightarrow> xs))"
  by (auto simp: antonyms_of_def split: list.splits option.splits)

lemma details_of_Inr:
  "details_of entry = Inr d \<longleftrightarrow>
   (\<exists>p a m x s t. pronunciation_of entry = Inr p \<and> audio_of entry = Inr a \<and>
      meaning_of entry = Inr m \<and> example_of entry = Inr x \<and> synonyms_of entry = Inr s \<and>
      antonyms_of entry = Inr t \<and>
      d = \<lparr>word = e_word entry, pronunciation = p, audio = a, meaning = m,
            example = x, synonyms = s, antonyms = t\<rparr>)"
  unfolding details_of_def and_then_Inr by auto

lemma audio_of_shape: "audio_of entry = Inr a \<Longrightarrow> \<exists>phonetics. e_phonetics entry = Some phonetics"
  by (cases "e_phonetics entry") (simp_all add: audio_of_def)

lemma meaning_of_shape: "meaning_of entry = Inr a \<Longrightarrow> \<exists>meanings. e_meanings entry = Some meanings"
  by (cases "e_meanings entry") (simp_all add: meaning_of_def)


lemma meaning_of_definitions:
  "meaning_of entry = Inr m \<Longrightarrow> e_meanings entry = Some (g # gs) \<Longrightarrow> m_definitions g \<noteq> None"
  by (cases "m_definitions g") (auto simp: meaning_of_def)

text \<open>
  A response of the expected shape: ok, with a body whose first entry has \<open>phonetics\<close>
  and \<open>meanings\<close> and whose first meaning group, if there is one, has \<open>definitions\<close>. For
  such an entry the object literal is evaluated without an error, and for no other.
\<close>

lemma details_of_eq:
  assumes ph: "e_phonetics entry = Some phonetics"
    and me: "e_meanings entry = Some meanings"
    and defs: "\<forall>g gs. meanings = g # gs \<longrightarrow> m_definitions g \<noteq> None"
  shows "details_of entry =
     Inr \<lparr>word = e_word entry,
          pronunciation =
            (case first_nonempty (e_phonetic entry # map p_text phonetics) of
               None \<Rightarrow> [] | Some s \<Rightarrow> s),
          audio = (case first_nonempty (map p_audio phonetics) of None \<Rightarrow> [] | Some s \<Rightarrow> s),
          meaning =
            (case first_nonempty (map d_definition (take 1 (first_group_definitions meanings))) of
               None \<Rightarrow> ''No definition available.'' | Some s \<Rightarrow> s),
          example =
            (case first_nonempty (map d_example (first_group_definitions meanings)) of
               None \<Rightarrow> ''No example sentence available.'' | Some s \<Rightarrow> s),
          synonyms =
            (case meanings of
               [] \<Rightarrow> [] | g # _ \<Rightarrow> (case m_synonyms g of None \<Rightarrow> [] | Some xs \<Rightarrow> xs)),
          antonyms =
            (case meanings of
               [] \<Rightarrow> [] | g # _ \<Rightarrow> (case m_antonyms g of None \<Rightarrow> [] | Some xs \<Rightarrow> xs))\<rparr>"
  unfolding details_of_def pronunciation_of_eq [OF ph] audio_of_eq [OF ph]
    meaning_of_eq [OF me defs] example_of_eq [OF me defs] synonyms_of_eq [OF me]
    antonyms_of_eq [OF me]
  by simp

lemma details_of_shape:
  assumes "details_of entry = Inr d"
  shows "\<exists>phonetics meanings. e_phonetics entry = Some phonetics \<and>
           e_meanings entry = Some meanings \<and>
           (\<forall>g gs. meanings = g # gs \<longrightarrow> m_definitions g \<noteq> None)"
proof -
  from assms obtain a m where a: "audio_of entry = Inr a" and m: "meaning_of entry = Inr m"
    unfolding details_of_Inr by blast
  from a obtain phonetics where ph: "e_phonetics entry = Some phonetics"
    using audio_of_shape by blast
  from m obtain meanings where me: "e_meanings entry = Some meanings"
    using meaning_of_shape by blast
  have "\<forall>g gs. meanings = g # gs \<longrightarrow> m_definitions g \<noteq> None"
    using meaning_of_definitions [OF m] me by auto
  with ph me show ?thesis by blast
qed

text \<open>What \<open>getWordDetails\<close> gives for the example entry, by evaluation.\<close>

lemma echo_details: "getWordDetails echo_service ''hello'' = Inr (Some echo_record)"
  by (simp add: getWordDetails_def getWordDetails_try_def echo_service_def echo_entry_def
      echo_record_def details_of_def pronunciation_of_def audio_of_def meaning_of_def
      example_of_def synonyms_of_def antonyms_of_def or_else_def)

text \<open>
  Claim C6, as stated, at the example entry. Its top-level \<open>phonetic\<close> is present (it is
  the empty string), and the pronunciation of the record is not that string but the
  text of the second element of \<open>phonetics\<close>. Its first meaning group has a first
  definition, whose text is the empty string, and the meaning of the record is not that
  text but the placeholder. That first definition has an example, the empty string, and
  the example of the record is not that one but the example of the second definition.
\<close>

theorem present_but_empty_strings:
  "getWordDetails echo_service ''hello'' =
     Inr (Some \<lparr>word = Some ''hello'', pronunciation = ''/h/'', audio = ''h.mp3'',
                 meaning = ''No definition available.'', example = ''hello there'',
                 synonyms = [''hi''], antonyms = []\<rparr>) \<and>
   echo_service ''hello'' = Response True (Json [echo_entry]) \<and>
   e_phonetic echo_entry = Some [] \<and>
   e_phonetics echo_entry
     = Some [\<lparr>p_text = None, p_audio = Some []\<rparr>,
             \<lparr>p_text = Some ''/h/'', p_audio = Some ''h.mp3''\<rparr>] \<and>
   map d_definition (first_group_definitions (case e_meanings echo_entry of Some ms \<Rightarrow> ms))
     = [Some [], Some ''a call''] \<and>
   map d_example (first_group_definitions (case e_meanings echo_entry of Some ms \<Rightarrow> ms))
     = [Some [], Some ''hello there'']"
  using echo_details
  by (simp add: echo_record_def echo_service_def echo_entry_def first_group_definitions_def)

text \<open>
  Claim C6, amended. For every successful lookup response, that is, a response that is
  ok and has the expected shape (a JSON body whose first entry has \<open>phonetics\<close> and
  \<open>meanings\<close>, the first meaning group, if there is one, with \<open>definitions\<close>), the enricher
  yields a record, and the record normalizes the first entry: \<open>word\<close> is the entry's;
  \<open>pronunciation\<close> is the top-level phonetic string if present and not empty, else the
  first text of \<open>phonetics\<close> that is present and not empty, else the empty string; \<open>audio\<close>
  is the first audio of \<open>phonetics\<close> that is present and not empty, else the empty string;
  \<open>meaning\<close> is the text of the first definition of the first meaning group if present
  and not empty, else "No definition available."; \<open>example\<close> is the first example,
  present and not empty, among the definitions of the first meaning group, else
  "No example sentence available."; \<open>synonyms\<close> and \<open>antonyms\<close> are those of the first
  meaning group, else empty. The enricher yields a record for no other response: the
  statement is an equivalence.
\<close>

theorem enricher_normalizes:
  "getWordDetails service w = Inr (Some d) \<longleftrightarrow>
   (\<exists>entry rest phonetics meanings.
      service w = Response True (Json (entry # rest)) \<and>
      e_phonetics entry = Some phonetics \<and> e_meanings entry = Some meanings \<and>
      (\<forall>g gs. meanings = g # gs \<longrightarrow> m_definitions g \<noteq> None) \<and>
      d = \<lparr>word = e_word entry,
           pronunciation =
             (case first_nonempty (e_phonetic entry # map p_text phonetics) of
                None \<Rightarrow> [] | Some s \<Rightarrow> s),
           audio = (case first_nonempty (map p_audio phonetics) of None \<Rightarrow> [] | Some s \<Rightarrow> s),
           meaning =
             (case first_nonempty (map d_definition (take 1 (first_group_definitions meanings))) of
                None \<Rightarrow> ''No definition available.'' | Some s \<Rightarrow> s),
           example =
             (case first_nonempty (map d_example (first_group_definitions meanings)) of
                None \<Rightarrow> ''No example sentence available.'' | Some s \<Rightarrow> s),
           synonyms =
             (case meanings of
                [] \<Rightarrow> [] | g # _ \<Rightarrow> (case m_synonyms g of None \<Rightarrow> [] | Some xs \<Rightarrow> xs)),
           antonyms =
             (case meanings of
                [] \<Rightarrow> [] | g # _ \<Rightarrow> (case m_antonyms g of None \<Rightarrow> [] | Some xs \<Rightarrow> xs))\<rparr>)"
  (is "?yields \<longleftrightarrow> ?normal")
proof
  assume ?yields
  then obtain entry rest where
    resp: "service w = Response True (Json (entry # rest))" and det: "details_of entry = Inr d"
    unfolding getWordDetails_Some by blast
  from details_of_shape [OF det] obtain phonetics meanings where
    ph: "e_phonetics entry = Some phonetics" and me: "e_meanings entry = Some meanings" and
    defs: "\<forall>g gs. meanings = g # gs \<longrightarrow> m_definitions g \<noteq> None"
    by blast
  from det have "Inr d = details_of entry" by simp
  also note details_of_eq [OF ph me defs]
  finally have "d = \<lparr>word = e_word entry,
           pronunciation =
             (case first_nonempty (e_phonetic entry # map p_text phonetics) of
                None \<Rightarrow> [] | Some s \<Rightarrow> s),
           audio = (case first_nonempty (map p_audio phonetics) of None \<Rightarrow> [] | Some s \<Rightarrow> s),
           meaning =
             (case first_nonempty (map d_definition (take 1 (first_group_definitions meanings))) of
                None \<Rightarrow> ''No definition available.'' | Some s \<Rightarrow> s),
           example =
             (case first_nonempty (map d_example (first_group_definitions meanings)) of
                None \<Rightarrow> ''No example sentence available.'' | Some s \<Rightarrow> s),
           synonyms =
             (case meanings of
                [] \<Rightarrow> [] | g # _ \<Rightarrow> (case m_synonyms g of None \<Rightarrow> [] | Some xs \<Rightarrow> xs)),
           antonyms =
             (case meanings of
                [] \<Rightarrow> [] | g # _ \<Rightarrow> (case m_antonyms g of None \<Rightarrow> [] | Some xs \<Rightarrow> xs))\<rparr>"
    by simp
  with resp ph me defs show ?normal by blast
next
  assume ?normal
  then obtain entry rest phonetics meanings where
    resp: "service w = Response True (Json (entry # rest))" and
    ph: "e_phonetics entry = Some phonetics" and me: "e_meanings entry = Some meanings" and
    defs: "\<forall>g gs. meanings = g # gs \<longrightarrow> m_definitions g \<noteq> None" and
    d: "d = \<lparr>word = e_word entry,
           pronunciation =
             (case first_nonempty (e_phonetic entry # map p_text phonetics) of
                None \<Rightarrow> [] | Some s \<Rightarrow> s),
           audio = (case first_nonempty (map p_audio phonetics) of None \<Rightarrow> [] | Some s \<Rightarrow> s),
           meaning =
             (case first_nonempty (map d_definition (take 1 (first_group_definitions meanings))) of
                None \<Rightarrow> ''No definition available.'' | Some s \<Rightarrow> s),
           example =
             (case first_nonempty (map d_example (first_group_definitions meanings)) of
                None \<Rightarrow> ''No example sentence available.'' | Some s \<Rightarrow> s),
           synonyms =
             (case meanings of
                [] \<Rightarrow> [] | g # _ \<Rightarrow> (case m_synonyms g of None \<Rightarrow> [] | Some xs \<Rightarrow> xs)),
           antonyms =
             (case meanings of
                [] \<Rightarrow> [] | g # _ \<Rightarrow> (case m_antonyms g of None \<Rightarrow> [] | Some xs \<Rightarrow> xs))\<rparr>"
    by blast
  from details_of_eq [OF ph me defs] d have "details_of entry = Inr d" by simp
  with resp show ?yields unfolding getWordDetails_Some by blast
qed

text \<open>
  The theorem at the example entry and at an entry without phonetic variants and without
  meaning groups: both responses have the expected shape, so the enricher yields the
  normalized record of each.
\<close>

theorem enricher_normalizes_witness:
  "getWordDetails echo_service ''hello'' = Inr (Some echo_record) \<and>
   getWordDetails (lowercase_service 0) ''bee'' = Inr (Some (plain_record ''bee''))"
  using enricher_normalizes [of echo_service "''hello''" echo_record]
    enricher_normalizes [of "lowercase_service 0" "''bee''" "plain_record ''bee''"]
  by (simp add: echo_service_def echo_entry_def echo_record_def lowercase_service_def
      plain_entry_def plain_record_def first_group_definitions_def)

text \<open>
  Claim C7. For every word and every answer of the service, \<open>getWordDetails\<close> returns a
  value and throws nothing; whatever the \<open>try\<close> block throws ends as \<open>null\<close>: a rejected
  \<open>fetch\<close>, a body that is not JSON, an empty array, an entry without \<open>phonetics\<close> or
  \<open>meanings\<close>, a first meaning group without \<open>definitions\<close>; and a response that is
  not ok gives \<open>null\<close> as well.
\<close>

theorem enricher_never_throws:
  "(\<exists>result. getWordDetails service w = Inr result) \<and>
   (\<forall>error. getWordDetails_try (service w) = Inl error \<longrightarrow> getWordDetails service w = Inr None) \<and>
   (service w = Rejected \<longrightarrow> getWordDetails service w = Inr None) \<and>
   (\<forall>b. service w = Response False b \<longrightarrow> getWordDetails service w = Inr None) \<and>
   (service w = Response True Not_json \<longrightarrow> getWordDetails service w = Inr None) \<and>
   (service w = Response True (Json []) \<longrightarrow> getWordDetails service w = Inr None) \<and>
   (\<forall>entry rest. service w = Response True (Json (entry # rest)) \<and>
      (e_phonetics entry = None \<or> e_meanings entry = None \<or>
       (\<exists>g gs. e_meanings entry = Some (g # gs) \<and> m_definitions g = None)) \<longrightarrow>
      getWordDetails service w = Inr None)"
proof (intro conjI allI impI)
  show "\<exists>result. getWordDetails service w = Inr result"
    by (cases "getWordDetails_try (service w)") (simp_all add: getWordDetails_def)
next
  fix error
  assume "getWordDetails_try (service w) = Inl error"
  then show "getWordDetails service w = Inr None" by (simp add: getWordDetails_def)
next
  assume "service w = Rejected"
  then show "getWordDetails service w = Inr None"
    by (simp add: getWordDetails_def getWordDetails_try_def)
next
  fix b
  assume "service w = Response False b"
  then show "getWordDetails service w = Inr None"
    by (simp add: getWordDetails_def getWordDetails_try_def)
next
  assume "service w = Response True Not_json"
  then show "getWordDetails service w = Inr None"
    by (simp add: getWordDetails_def getWordDetails_try_def)
next
  assume "service w = Response True (Json [])"
  then show "getWordDetails service w = Inr None"
    by (simp add: getWordDetails_def getWordDetails_try_def)
next
  fix entry rest
  assume a: "service w = Response True (Json (entry # rest)) \<and>
      (e_phonetics entry = None \<or> e_meanings entry = None \<or>
       (\<exists>g gs. e_meanings entry = Some (g # gs) \<and> m_definitions g = None))"
  have "\<exists>error. details_of entry = Inl error"
  proof (cases "details_of entry")
    case (Inl error)
    then show ?thesis by blast
  next
    case (Inr d)
    then obtain p x m where "audio_of entry = Inr p" "meaning_of entry = Inr m"
      unfolding details_of_Inr by blast
    with a show ?thesis
      by (auto simp: audio_of_def meaning_of_def)
  qed
  with a show "getWordDetails service w = Inr None"
    by (auto simp: getWordDetails_def getWordDetails_try_def)
qed

theorem enricher_never_throws_witness:
  "getWordDetails down_service ''hello'' = Inr None \<and>
   getWordDetails missing_service ''hello'' = Inr None \<and>
   getWordDetails broken_service ''hello'' = Inr None \<and>
   (\<exists>result. getWordDetails echo_service ''hello'' = Inr result)"
  using enricher_never_throws [of down_service "''hello''"]
    enricher_never_throws [of missing_service "''hello''"]
    enricher_never_throws [of broken_service "''hello''"]
    enricher_never_throws [of echo_service "''hello''"]
  by (simp add: down_service_def missing_service_def broken_service_def echo_entry_def)

section \<open>The loop of the daily update\<close>

declare loop.simps [simp del]

lemma accepted_append: "accepted (xs @ ys) = accepted xs @ accepted ys"
  by (induction xs rule: accepted.induct) simp_all

lemma getWordDetails_Inr: "\<exists>result. getWordDetails service w = Inr result"
  by (cases "getWordDetails_try (service w)") (simp_all add: getWordDetails_def)

lemma mset_splice:
  "k < length xs \<Longrightarrow> mset xs = add_mset (xs ! k) (mset (take k xs @ drop (Suc k) xs))"
proof -
  assume "k < length xs"
  then have "xs = take k xs @ xs ! k # drop (Suc k) xs" by (rule id_take_nth_drop)
  then have "mset xs = mset (take k xs @ xs ! k # drop (Suc k) xs)" by simp
  then show ?thesis by simp
qed

lemma loop_post_step:
  assumes r: "r < length av"
    and det: "getWordDetails (fetch env i) (av ! r) = Inr res"
    and post: "loop_post env (Suc i) (take r av @ drop (Suc r) av)
                 (nw @ (case res of None \<Rightarrow> [] | Some d \<Rightarrow> [d]))
                 (case res of None \<Rightarrow> uw | Some d \<Rightarrow> Set_add uw (av ! r))
                 (ps @ [(av ! r, res)]) nw' uw' ps' ext"
    and lt: "length nw < 3"
  shows "loop_post env i av nw uw ps nw' uw' ps' ((av ! r, res) # ext)"
proof -
  let ?rem = "take r av @ drop (Suc r) av"
  from post have ps': "ps' = ps @ (av ! r, res) # ext" by (simp add: loop_post_def)
  from post have nw': "nw' = nw @ map snd (accepted ((av ! r, res) # ext))"
    by (cases res) (simp_all add: loop_post_def)
  from post have uw': "uw' = foldl Set_add uw (map fst (accepted ((av ! r, res) # ext)))"
    by (cases res) (simp_all add: loop_post_def)
  from post have "mset (map fst ext) \<subseteq># mset ?rem" by (simp add: loop_post_def)
  then have sub: "mset (map fst ((av ! r, res) # ext)) \<subseteq># mset av"
    using mset_splice [OF r] by simp
  have idx: "getWordDetails (fetch env (i + k)) (fst (((av ! r, res) # ext) ! k))
      = Inr (snd (((av ! r, res) # ext) ! k))" if "k < length ((av ! r, res) # ext)" for k
  proof (cases k)
    case 0
    then show ?thesis using det by simp
  next
    case (Suc k')
    with that have "k' < length ext" by simp
    with post have "getWordDetails (fetch env (Suc i + k')) (fst (ext ! k')) = Inr (snd (ext ! k'))"
      by (simp add: loop_post_def)
    with Suc show ?thesis by simp
  qed
  have "length (nw @ (case res of None \<Rightarrow> [] | Some d \<Rightarrow> [d])) \<le> 3"
    using lt by (cases res) simp_all
  with post have len: "length nw \<le> 3 \<longrightarrow> length nw' \<le> 3"
    unfolding loop_post_def by blast
  from post have "length nw' < 3 \<longrightarrow> length ext = length (take r av @ drop (Suc r) av)"
    unfolding loop_post_def by blast
  with r have ex: "length nw' < 3 \<longrightarrow> length ((av ! r, res) # ext) = length av"
    by (auto simp add: min_def)
  show ?thesis
    unfolding loop_post_def using ps' nw' uw' sub idx len ex by blast
qed

lemma loop_stop:
  "\<not> (length nw < 3 \<and> 0 < length av) \<Longrightarrow> loop env i av nw uw ps = Inr (nw, uw, ps)"
  by (subst loop.simps) (simp only: if_False)

lemma loop_None:
  "length nw < 3 \<and> 0 < length av \<Longrightarrow> r = random env i mod length av \<Longrightarrow>
   getWordDetails (fetch env i) (av ! r) = Inr None \<Longrightarrow>
   loop env i av nw uw ps
   = loop env (Suc i) (take r av @ drop (Suc r) av) nw uw (ps @ [(av ! r, None)])"
  by (subst loop.simps) (simp add: Let_def)

lemma loop_Some:
  "length nw < 3 \<and> 0 < length av \<Longrightarrow> r = random env i mod length av \<Longrightarrow>
   getWordDetails (fetch env i) (av ! r) = Inr (Some d) \<Longrightarrow>
   loop env i av nw uw ps
   = loop env (Suc i) (take r av @ drop (Suc r) av) (nw @ [d]) (Set_add uw (av ! r))
       (ps @ [(av ! r, Some d)])"
  by (subst loop.simps) (simp add: Let_def)

lemma loop_Inr:
  "loop env i av nw uw ps = Inr (nw', uw', ps') \<Longrightarrow>
   \<exists>ext. loop_post env i av nw uw ps nw' uw' ps' ext"
proof (induction env i av nw uw ps arbitrary: nw' uw' ps' rule: loop.induct)
  case (1 env i av nw uw ps)
  show ?case
  proof (cases "length nw < 3 \<and> 0 < length av")
    case False
    with "1.prems" have "nw' = nw \<and> uw' = uw \<and> ps' = ps"
      by (simp add: loop_stop)
    with False have "loop_post env i av nw uw ps nw' uw' ps' []"
      by (auto simp add: loop_post_def)
    then show ?thesis by blast
  next
    case True
    define r where "r = random env i mod length av"
    from True have r: "r < length av" by (simp add: r_def)
    obtain res where det: "getWordDetails (fetch env i) (av ! r) = Inr res"
      using getWordDetails_Inr by blast
    show ?thesis
    proof (cases res)
      case None
      with "1.prems" det have
        "loop env (Suc i) (take r av @ drop (Suc r) av) nw uw (ps @ [(av ! r, None)]) = Inr (nw', uw', ps')"
        by (simp add: loop_None [OF True r_def])
      from "1.IH"(1) [OF True r_def refl refl det None this]
      obtain ext where "loop_post env (Suc i) (take r av @ drop (Suc r) av) nw uw (ps @ [(av ! r, None)]) nw' uw' ps' ext"
        by auto
      then have "loop_post env i av nw uw ps nw' uw' ps' ((av ! r, res) # ext)"
        using loop_post_step [OF r det, of nw uw ps nw' uw' ps' ext] True None by simp
      then show ?thesis by blast
    next
      case (Some d)
      with "1.prems" det have
        "loop env (Suc i) (take r av @ drop (Suc r) av) (nw @ [d]) (Set_add uw (av ! r)) (ps @ [(av ! r, Some d)]) = Inr (nw', uw', ps')"
        by (simp add: loop_Some [OF True r_def])
      from "1.IH"(2) [OF True r_def refl refl det Some this]
      obtain ext where "loop_post env (Suc i) (take r av @ drop (Suc r) av) (nw @ [d]) (Set_add uw (av ! r)) (ps @ [(av ! r, Some d)]) nw' uw' ps' ext"
        by auto
      then have "loop_post env i av nw uw ps nw' uw' ps' ((av ! r, res) # ext)"
        using loop_post_step [OF r det, of nw uw ps nw' uw' ps' ext] True Some by simp
      then show ?thesis by blast
    qed
  qed
qed

lemma loop_total: "\<exists>result. loop env i av nw uw ps = Inr result"
proof (induction env i av nw uw ps rule: loop.induct)
  case (1 env i av nw uw ps)
  show ?case
  proof (cases "length nw < 3 \<and> 0 < length av")
    case False
    then show ?thesis by (simp add: loop_stop)
  next
    case True
    define r where "r = random env i mod length av"
    obtain res where det: "getWordDetails (fetch env i) (av ! r) = Inr res"
      using getWordDetails_Inr by blast
    show ?thesis
    proof (cases res)
      case None
      with "1.IH"(1) [OF True r_def refl refl det None] det show ?thesis
        by (simp add: loop_None [OF True r_def])
    next
      case (Some d)
      with "1.IH"(2) [OF True r_def refl refl det Some] det show ?thesis
        by (simp add: loop_Some [OF True r_def])
    qed
  qed
qed



section \<open>Runs of the daily update\<close>

lemma plain_details:
  "getWordDetails (lowercase_service i) w = Inr (Some (plain_record (if w = ''Apple'' then ''apple'' else w)))"
  by (simp add: getWordDetails_def getWordDetails_try_def lowercase_service_def plain_entry_def
      plain_record_def details_of_def pronunciation_of_def audio_of_def meaning_of_def
      example_of_def synonyms_of_def antonyms_of_def)

lemma small_loop:
  "loop \<lparr>random = first_index, fetch = lowercase_service, writable = wr, torn = tn\<rparr> 0
     [''Apple'', ''bee'', ''cat''] [] [''dog''] []
   = Inr (three_records, [''dog'', ''Apple'', ''bee'', ''cat''], three_picks)"
  by (simp add: loop.simps plain_details first_index_def Set_add_def Let_def three_records_def
      three_picks_def)

text \<open>
  The example runs: one that saves, one whose ledger write fails after the history was
  written, one whose history write fails after the open, and one that finds too few
  words.
\<close>

lemma good_run:
  "updateDailyWords good_env ''2024-01-02'' small_disk = (saved_disk, Saved, three_picks)"
  by (simp add: updateDailyWords_def good_env_def small_disk_def loadJsonFile_def
      get_property_def Object_prototype_keys_def new_Set_def Set_add_def Set_has_def
      small_loop saveJsonFile_def every_write_succeeds_def Let_def saved_disk_def
      three_records_def)

lemma failing_run:
  "updateDailyWords failing_env ''2024-01-02'' small_disk = (split_disk, Thrown IO_error, three_picks)"
  by (simp add: updateDailyWords_def failing_env_def small_disk_def loadJsonFile_def
      get_property_def Object_prototype_keys_def new_Set_def Set_add_def Set_has_def
      small_loop saveJsonFile_def ledger_write_fails_def fails_at_open_def Let_def
      split_disk_def three_records_def)

lemma tearing_run:
  "updateDailyWords tearing_env ''2024-01-02'' older_disk = (torn_disk, Thrown IO_error, three_picks)"
  by (simp add: updateDailyWords_def tearing_env_def older_disk_def loadJsonFile_def
      get_property_def Object_prototype_keys_def new_Set_def Set_add_def Set_has_def
      small_loop saveJsonFile_def history_write_fails_def fails_after_open_def Let_def
      torn_disk_def three_records_def)

lemma short_run:
  "updateDailyWords good_env ''2024-01-02'' short_disk = (short_disk, Not_enough_words, [])"
  by (simp add: updateDailyWords_def short_disk_def loadJsonFile_def get_property_def
      Object_prototype_keys_def new_Set_def Set_add_def Set_has_def Let_def)

lemma accepted_three_picks:
  "accepted three_picks =
     [(''Apple'', plain_record ''apple''), (''bee'', plain_record ''bee''), (''cat'', plain_record ''cat'')]"
  by (simp add: three_picks_def)

text \<open>Every run ends in one of these ways.\<close>

lemma run_cases:
  assumes run: "updateDailyWords env today d = (d', out, ps)"
  shows "(d' = d \<and> ps = [] \<and> (\<exists>e. out = Thrown e) \<and>
            (\<exists>e. loadJsonFile (history_json d) [] = Inl e \<or>
                  loadJsonFile (wordlist_json d) [] = Inl e \<or>
                  loadJsonFile (used_words_json d) [] = Inl e)) \<or>
         (d' = d \<and> ps = [] \<and> out = Already_exists \<and>
            (\<exists>h. loadJsonFile (history_json d) [] = Inr h \<and> get_property h today \<noteq> Undefined)) \<or>
         (\<exists>h allWords used.
            loadJsonFile (history_json d) [] = Inr h \<and> get_property h today = Undefined \<and>
            loadJsonFile (wordlist_json d) [] = Inr allWords \<and>
            loadJsonFile (used_words_json d) [] = Inr used \<and>
            ((d' = d \<and> ps = [] \<and> out = Not_enough_words \<and> length (available allWords used) < 3) \<or>
             (3 \<le> length (available allWords used) \<and>
              (\<exists>nw uw. loop env 0 (available allWords used) [] (new_Set used) [] = Inr (nw, uw, ps) \<and>
                 ((d' = d \<and> out = Failed_to_fetch \<and> length nw \<noteq> 3) \<or>
                  (length nw = 3 \<and>
                   ((d' = d\<lparr>history_json :=
                              if torn env HISTORY_PATH then Fails SyntaxError
                              else history_json d\<rparr> \<and>
                       out = Thrown IO_error \<and> \<not> writable env HISTORY_PATH) \<or>
                    (d' = d\<lparr>history_json := Holds (AList.update today nw h),
                             used_words_json :=
                               if torn env USED_WORDS_PATH then Fails SyntaxError
                               else used_words_json d\<rparr> \<and>
                       out = Thrown IO_error \<and> writable env HISTORY_PATH \<and>
                       \<not> writable env USED_WORDS_PATH) \<or>
                    (d' = d\<lparr>history_json := Holds (AList.update today nw h),
                             used_words_json := Holds uw\<rparr> \<and>
                       out = Saved \<and> writable env HISTORY_PATH \<and>
                       writable env USED_WORDS_PATH))))))))"
proof (cases "loadJsonFile (history_json d) []")
  case (Inl e)
  with run show ?thesis by (auto simp: updateDailyWords_def)
next
  case h: (Inr h)
  show ?thesis
  proof (cases "get_property h today = Undefined")
    case False
    then have "truthy_property (get_property h today)"
      by (cases "get_property h today") simp_all
    with run h False show ?thesis by (auto simp: updateDailyWords_def)
  next
    case undef: True
    show ?thesis
    proof (cases "loadJsonFile (wordlist_json d) []")
      case (Inl e)
      with run h undef show ?thesis by (auto simp: updateDailyWords_def)
    next
      case w: (Inr allWords)
      show ?thesis
      proof (cases "loadJsonFile (used_words_json d) []")
        case (Inl e)
        with run h undef w show ?thesis by (auto simp: updateDailyWords_def)
      next
        case u: (Inr used)
        have av: "filter (\<lambda>word. \<not> Set_has (new_Set used) word) allWords = available allWords used"
          by (simp add: available_def Set_has_def new_Set_set)
        show ?thesis
        proof (cases "length (available allWords used) < 3")
          case True
          with run h undef w u av show ?thesis
            by (simp add: updateDailyWords_def Let_def)
        next
          case enough: False
          obtain nw uw ps0 where
            lp: "loop env 0 (available allWords used) [] (new_Set used) [] = Inr (nw, uw, ps0)"
            using loop_total [of env 0 "available allWords used" "[]" "new_Set used" "[]"]
            by (metis prod_cases3)
          show ?thesis
          proof (cases "length nw = 3")
            case False
            with run h undef w u av enough lp show ?thesis
              by (simp add: updateDailyWords_def Let_def)
          next
            case three: True
            show ?thesis
            proof (cases "writable env HISTORY_PATH")
              case False
              with run h undef w u av enough lp three show ?thesis
                by (cases "torn env HISTORY_PATH")
                  (simp_all add: updateDailyWords_def Let_def saveJsonFile_def)
            next
              case wh: True
              show ?thesis
              proof (cases "writable env USED_WORDS_PATH")
                case False
                with run h undef w u av enough lp three wh show ?thesis
                  by (cases "torn env USED_WORDS_PATH")
                    (simp_all add: updateDailyWords_def Let_def saveJsonFile_def)
              next
                case True
                with run h undef w u av enough lp three wh show ?thesis
                  by (simp add: updateDailyWords_def Let_def saveJsonFile_def)
              qed
            qed
          qed
        qed
      qed
    qed
  qed
qed

lemma accepted_mem: "(w, details) \<in> set (accepted ps) \<longleftrightarrow> (w, Some details) \<in> set ps"
  by (induction ps rule: accepted.induct) auto


lemma run_Saved:
  assumes run: "updateDailyWords env today d = (d', Saved, ps)"
    and h: "loadJsonFile (history_json d) [] = Inr h"
    and u: "loadJsonFile (used_words_json d) [] = Inr used"
  shows "\<exists>allWords.
           loadJsonFile (wordlist_json d) [] = Inr allWords \<and>
           get_property h today = Undefined \<and>
           length (accepted ps) = 3 \<and>
           loop_post env 0 (available allWords used) [] (new_Set used) []
             (map snd (accepted ps)) (foldl Set_add (new_Set used) (map fst (accepted ps))) ps ps \<and>
           d' = d\<lparr>history_json := Holds (AList.update today (map snd (accepted ps)) h),
                   used_words_json := Holds (foldl Set_add (new_Set used) (map fst (accepted ps)))\<rparr>"
proof -
  from run_cases [OF run] h u obtain allWords nw uw where
    w: "loadJsonFile (wordlist_json d) [] = Inr allWords" and
    undef: "get_property h today = Undefined" and
    lp: "loop env 0 (available allWords used) [] (new_Set used) [] = Inr (nw, uw, ps)" and
    three: "length nw = 3" and
    d': "d' = d\<lparr>history_json := Holds (AList.update today nw h), used_words_json := Holds uw\<rparr>"
    by auto
  from loop_Inr [OF lp] obtain ext where
    post: "loop_post env 0 (available allWords used) [] (new_Set used) [] nw uw ps ext"
    by blast
  then have ext: "ext = ps" and nw: "nw = map snd (accepted ps)"
    and uw: "uw = foldl Set_add (new_Set used) (map fst (accepted ps))"
    by (simp_all add: loop_post_def)
  from three nw have "length (accepted ps) = 3" by simp
  with w undef post d' show ?thesis unfolding ext nw uw by blast
qed

lemma run_failed:
  assumes run: "updateDailyWords env today d = (d', out, ps)" and out: "out \<noteq> Saved"
  shows "(length (accepted ps) \<noteq> 3 \<and> d' = d) \<or>
         (length (accepted ps) = 3 \<and> out = Thrown IO_error \<and> \<not> writable env HISTORY_PATH \<and>
          d' = d\<lparr>history_json :=
                   if torn env HISTORY_PATH then Fails SyntaxError else history_json d\<rparr>) \<or>
         (length (accepted ps) = 3 \<and> out = Thrown IO_error \<and> writable env HISTORY_PATH \<and>
          \<not> writable env USED_WORDS_PATH \<and>
          (\<exists>h. loadJsonFile (history_json d) [] = Inr h \<and> get_property h today = Undefined \<and>
             d' = d\<lparr>history_json := Holds (AList.update today (map snd (accepted ps)) h),
                     used_words_json :=
                       if torn env USED_WORDS_PATH then Fails SyntaxError
                       else used_words_json d\<rparr>))"
proof -
  from run_cases [OF run] out consider
    (empty) "d' = d" "ps = []"
  | (looped) h allWords used nw uw where
      "loadJsonFile (history_json d) [] = Inr h" "get_property h today = Undefined"
      "loop env 0 (available allWords used) [] (new_Set used) [] = Inr (nw, uw, ps)"
      "(d' = d \<and> length nw \<noteq> 3) \<or>
       (length nw = 3 \<and> out = Thrown IO_error \<and> \<not> writable env HISTORY_PATH \<and>
        d' = d\<lparr>history_json :=
                 if torn env HISTORY_PATH then Fails SyntaxError else history_json d\<rparr>) \<or>
       (length nw = 3 \<and> out = Thrown IO_error \<and> writable env HISTORY_PATH \<and>
        \<not> writable env USED_WORDS_PATH \<and>
        d' = d\<lparr>history_json := Holds (AList.update today nw h),
                used_words_json :=
                  if torn env USED_WORDS_PATH then Fails SyntaxError
                  else used_words_json d\<rparr>)"
    by auto
  then show ?thesis
  proof cases
    case empty
    then show ?thesis by simp
  next
    case looped
    from loop_Inr [OF looped(3)] obtain ext where
      post: "loop_post env 0 (available allWords used) [] (new_Set used) [] nw uw ps ext"
      by blast
    then have nw: "nw = map snd (accepted ps)" by (simp add: loop_post_def)
    from looped(1,2,4) show ?thesis unfolding nw length_map by blast
  qed
qed

lemma get_property_Undefined: "get_property h key = Undefined \<Longrightarrow> map_of h key = None"
  by (cases "map_of h key") (simp_all add: get_property_def)



lemma loop_post_fetched:
  assumes post: "loop_post env 0 av nw0 uw0 [] nw uw ps ps"
    and mem: "(w, details) \<in> set (accepted ps)"
  shows "\<exists>k < length ps. ps ! k = (w, Some details) \<and>
           getWordDetails (fetch env k) w = Inr (Some details)"
proof -
  from mem have "(w, Some details) \<in> set ps" by (simp add: accepted_mem)
  then obtain k where k: "k < length ps" "ps ! k = (w, Some details)"
    by (auto simp: in_set_conv_nth)
  with post have "getWordDetails (fetch env (0 + k)) (fst (ps ! k)) = Inr (snd (ps ! k))"
    unfolding loop_post_def by blast
  with k show ?thesis by auto
qed


text \<open>Every accepted pick of a run is what the service answered for the picked word.\<close>

lemma run_picks_fetched:
  assumes run: "updateDailyWords env today d = (d', out, ps)"
    and mem: "(w, details) \<in> set (accepted ps)"
  shows "\<exists>k < length ps. ps ! k = (w, Some details) \<and>
           getWordDetails (fetch env k) w = Inr (Some details)"
proof -
  from run_cases [OF run] consider
    (empty) "ps = []"
  | (looped) av uw0 nw uw where "loop env 0 av [] uw0 [] = Inr (nw, uw, ps)"
    by auto
  then show ?thesis
  proof cases
    case empty
    with mem show ?thesis by simp
  next
    case looped
    from loop_Inr [OF looped] obtain ext where post: "loop_post env 0 av [] uw0 [] nw uw ps ext"
      by blast
    then have "ext = ps" by (simp add: loop_post_def)
    with post have "loop_post env 0 av [] uw0 [] nw uw ps ps" by simp
    from loop_post_fetched [OF this mem] show ?thesis .
  qed
qed

section \<open>The claims about the daily update\<close>

text \<open>
  Claim C1, as stated, at two example runs that end with an I/O error in the commit. In
  the first the write of the ledger fails after the history has been written: the History
  Store has changed (it did not exist and now holds the day's three records) and the
  Usage Ledger has not. In the second the write of the history fails after the open: the
  History Store, which held the records of an earlier day, is torn and can no longer be
  read.
\<close>

theorem commit_is_not_atomic:
  "updateDailyWords failing_env ''2024-01-02'' small_disk = (split_disk, Thrown IO_error, three_picks) \<and>
   history_json small_disk = ENOENT \<and>
   history_json split_disk = Holds [(''2024-01-02'', three_records)] \<and>
   history_json split_disk \<noteq> history_json small_disk \<and>
   used_words_json split_disk = used_words_json small_disk \<and>
   updateDailyWords tearing_env ''2024-01-02'' older_disk = (torn_disk, Thrown IO_error, three_picks) \<and>
   history_json older_disk = Holds [(''2024-01-01'', three_records)] \<and>
   history_json torn_disk = Fails SyntaxError \<and>
   history_json torn_disk \<noteq> history_json older_disk"
  by (simp add: failing_run tearing_run)
    (simp add: split_disk_def small_disk_def older_disk_def torn_disk_def)

text \<open>
  Claim C1, amended. Take a run that does not end saved. The corpus is as before the run.
  If the run did not get three picks accepted (in particular when it ends with too few
  words in the pool, with fewer than three words enriched, or with an error of a load),
  the whole disk is as before the run. If it got three picks accepted, it reached the
  commit and ended with an I/O error in one of its two writes. When the write of the
  history failed, the ledger is as before the run and the History Store is as before, or
  torn when the write failed after the open. When the write of the history succeeded, the
  write of the ledger failed and the commit is partial: the History Store holds the
  history of before with the day's three records under the date and so differs from
  before, and the Usage Ledger has not received the picked words: it is as before, or torn
  when the write failed after the open.
\<close>

theorem failed_run_leaves_stores:
  assumes "updateDailyWords env today d = (d', out, ps)" and "out \<noteq> Saved"
  shows "wordlist_json d' = wordlist_json d \<and>
         (length (accepted ps) \<noteq> 3 \<longrightarrow> d' = d) \<and>
         (out \<noteq> Thrown IO_error \<longrightarrow> d' = d) \<and>
         (length (accepted ps) = 3 \<longrightarrow>
            out = Thrown IO_error \<and>
            (\<not> writable env HISTORY_PATH \<longrightarrow>
               used_words_json d' = used_words_json d \<and>
               history_json d' =
                 (if torn env HISTORY_PATH then Fails SyntaxError else history_json d)) \<and>
            (writable env HISTORY_PATH \<longrightarrow>
               \<not> writable env USED_WORDS_PATH \<and>
               (\<exists>h. loadJsonFile (history_json d) [] = Inr h \<and> map_of h today = None \<and>
                  history_json d' = Holds (AList.update today (map snd (accepted ps)) h)) \<and>
               history_json d' \<noteq> history_json d \<and>
               used_words_json d' =
                 (if torn env USED_WORDS_PATH then Fails SyntaxError else used_words_json d)))"
proof -
  from run_failed [OF assms] consider
    (early) "length (accepted ps) \<noteq> 3" "d' = d"
  | (history) "length (accepted ps) = 3" "out = Thrown IO_error" "\<not> writable env HISTORY_PATH"
      "d' = d\<lparr>history_json :=
               if torn env HISTORY_PATH then Fails SyntaxError else history_json d\<rparr>"
  | (ledger) h where "length (accepted ps) = 3" "out = Thrown IO_error"
      "writable env HISTORY_PATH" "\<not> writable env USED_WORDS_PATH"
      "loadJsonFile (history_json d) [] = Inr h" "get_property h today = Undefined"
      "d' = d\<lparr>history_json := Holds (AList.update today (map snd (accepted ps)) h),
              used_words_json :=
                if torn env USED_WORDS_PATH then Fails SyntaxError else used_words_json d\<rparr>"
    by blast
  then show ?thesis
  proof cases
    case early
    then show ?thesis by simp
  next
    case history
    then show ?thesis by simp
  next
    case ledger
    from ledger(6) have none: "map_of h today = None" by (rule get_property_Undefined)
    have "map_of (AList.update today (map snd (accepted ps)) h) today \<noteq> map_of h today"
      by (simp add: update_conv' none)
    then have "AList.update today (map snd (accepted ps)) h \<noteq> h" by auto
    with ledger(5) have changed:
      "Holds (AList.update today (map snd (accepted ps)) h) \<noteq> history_json d"
      by (cases "history_json d") (simp_all add: loadJsonFile_def)
    from ledger(5) none have
      "\<exists>h. loadJsonFile (history_json d) [] = Inr h \<and> map_of h today = None \<and>
         Holds (AList.update today (map snd (accepted ps)) h)
           = Holds (AList.update today (map snd (accepted ps)) h)"
      by blast
    with ledger changed show ?thesis by simp
  qed
qed

theorem failed_run_leaves_stores_witness:
  "updateDailyWords failing_env ''2024-01-02'' small_disk = (split_disk, Thrown IO_error, three_picks) \<and>
   length (accepted three_picks) = 3 \<and>
   writable failing_env HISTORY_PATH \<and> \<not> writable failing_env USED_WORDS_PATH \<and>
   history_json split_disk \<noteq> history_json small_disk \<and>
   used_words_json split_disk = used_words_json small_disk \<and>
   updateDailyWords tearing_env ''2024-01-02'' older_disk = (torn_disk, Thrown IO_error, three_picks) \<and>
   \<not> writable tearing_env HISTORY_PATH \<and> torn tearing_env HISTORY_PATH \<and>
   history_json torn_disk = Fails SyntaxError \<and>
   used_words_json torn_disk = used_words_json older_disk \<and>
   updateDailyWords good_env ''2024-01-02'' short_disk = (short_disk, Not_enough_words, [])"
  using failed_run_leaves_stores [OF failing_run] failed_run_leaves_stores [OF tearing_run]
    failed_run_leaves_stores [OF short_run] failing_run tearing_run short_run
  by (simp add: accepted_three_picks failing_env_def tearing_env_def ledger_write_fails_def
      history_write_fails_def fails_at_open_def fails_after_open_def)




text \<open>
  Claim C3. A run on a date that is already a key of the History Store changes nothing
  on the disk, whatever the environment; in particular a run that follows a saved run of
  the same date.
\<close>

theorem second_run_is_no_op:
  "(loadJsonFile (history_json d) [] = Inr h \<and> map_of h today = Some records \<longrightarrow>
      updateDailyWords env today d = (d, Already_exists, [])) \<and>
   (updateDailyWords env today d = (d', Saved, ps) \<longrightarrow>
      updateDailyWords env' today d' = (d', Already_exists, []))"
proof (intro conjI impI)
  assume "loadJsonFile (history_json d) [] = Inr h \<and> map_of h today = Some records"
  then show "updateDailyWords env today d = (d, Already_exists, [])"
    by (simp add: updateDailyWords_def get_property_def)
next
  assume run: "updateDailyWords env today d = (d', Saved, ps)"
  from run_cases [OF run] obtain h nw uw where
    "d' = d\<lparr>history_json := Holds (AList.update today nw h), used_words_json := Holds uw\<rparr>"
    by auto
  then have "loadJsonFile (history_json d') [] = Inr (AList.update today nw h)"
    by (simp add: loadJsonFile_def)
  moreover have "map_of (AList.update today nw h) today = Some nw"
    by (simp add: update_conv')
  ultimately show "updateDailyWords env' today d' = (d', Already_exists, [])"
    by (simp add: updateDailyWords_def get_property_def)
qed

theorem second_run_is_no_op_witness:
  "updateDailyWords good_env ''2024-01-02'' small_disk = (saved_disk, Saved, three_picks) \<and>
   updateDailyWords failing_env ''2024-01-02'' saved_disk = (saved_disk, Already_exists, []) \<and>
   updateDailyWords good_env ''2024-01-02'' split_disk = (split_disk, Already_exists, [])"
  using second_run_is_no_op [of small_disk "[]" "''2024-01-02''" three_records good_env saved_disk three_picks failing_env]
    second_run_is_no_op [of split_disk "[(''2024-01-02'', three_records)]" "''2024-01-02''" three_records good_env split_disk "[]" good_env]
    good_run
  by (simp add: split_disk_def loadJsonFile_def)




text \<open>
  Claim C10. In every run, the record of each accepted pick has as its \<open>word\<close> the \<open>word\<close>
  of the first entry the service answered for the selected word, not the selected word.
  In a run that saves, the records stored under the date are those of the three accepted
  picks and the ledger receives the selected words of these picks. In the example the
  service echoes \<open>Apple\<close> as \<open>apple\<close>: the history stores \<open>apple\<close>, the ledger \<open>Apple\<close>, and
  \<open>apple\<close> is not in the ledger.
\<close>

theorem record_word_is_service_word:
  assumes run: "updateDailyWords env today d = (d', out, ps)"
  shows "(\<forall>(w, details) \<in> set (accepted ps).
            \<exists>k entry rest. k < length ps \<and> ps ! k = (w, Some details) \<and>
              fetch env k w = Response True (Json (entry # rest)) \<and>
              word details = e_word entry) \<and>
         (out = Saved \<longrightarrow>
            length (accepted ps) = 3 \<and>
            (\<forall>h used. loadJsonFile (history_json d) [] = Inr h \<and>
                loadJsonFile (used_words_json d) [] = Inr used \<longrightarrow>
                history_json d' = Holds (AList.update today (map snd (accepted ps)) h) \<and>
                used_words_json d' =
                  Holds (foldl Set_add (new_Set used) (map fst (accepted ps)))))"
proof -
  have fetched: "\<exists>k entry rest. k < length ps \<and> ps ! k = (w, Some details) \<and>
            fetch env k w = Response True (Json (entry # rest)) \<and>
            word details = e_word entry"
    if mem: "(w, details) \<in> set (accepted ps)" for w details
  proof -
    from run_picks_fetched [OF run mem] obtain k where
      k: "k < length ps" "ps ! k = (w, Some details)"
        "getWordDetails (fetch env k) w = Inr (Some details)"
      by blast
    from k(3) obtain entry rest where
      "fetch env k w = Response True (Json (entry # rest))" "details_of entry = Inr details"
      unfolding getWordDetails_Some by blast
    moreover from this(2) have "word details = e_word entry"
      unfolding details_of_Inr by auto
    ultimately show ?thesis using k by blast
  qed
  have three: "length (accepted ps) = 3" if "out = Saved"
  proof -
    from run that have run': "updateDailyWords env today d = (d', Saved, ps)" by simp
    from run_cases [OF run'] obtain h used where
      "loadJsonFile (history_json d) [] = Inr h" "loadJsonFile (used_words_json d) [] = Inr used"
      by auto
    from run_Saved [OF run' this] show ?thesis by blast
  qed
  have stores: "history_json d' = Holds (AList.update today (map snd (accepted ps)) h) \<and>
        used_words_json d' = Holds (foldl Set_add (new_Set used) (map fst (accepted ps)))"
    if "out = Saved" and h: "loadJsonFile (history_json d) [] = Inr h"
      and u: "loadJsonFile (used_words_json d) [] = Inr used" for h used
  proof -
    from run that(1) have run': "updateDailyWords env today d = (d', Saved, ps)" by simp
    from run_Saved [OF run' h u] show ?thesis by auto
  qed
  from fetched three stores show ?thesis by blast
qed

theorem record_word_is_service_word_witness:
  "updateDailyWords good_env ''2024-01-02'' small_disk = (saved_disk, Saved, three_picks) \<and>
   history_json saved_disk = Holds (AList.update ''2024-01-02'' (map snd (accepted three_picks)) []) \<and>
   used_words_json saved_disk = Holds (foldl Set_add (new_Set [''dog'']) (map fst (accepted three_picks))) \<and>
   fetch good_env 0 ''Apple'' = Response True (Json [plain_entry ''apple'']) \<and>
   map word (map snd (accepted three_picks)) = [Some ''apple'', Some ''bee'', Some ''cat''] \<and>
   foldl Set_add (new_Set [''dog'']) (map fst (accepted three_picks)) = [''dog'', ''Apple'', ''bee'', ''cat''] \<and>
   ''apple'' \<notin> set [''dog'', ''Apple'', ''bee'', ''cat'']"
  using record_word_is_service_word [OF good_run] good_run
  by (simp add: small_disk_def saved_disk_def loadJsonFile_def accepted_three_picks three_records_def
      good_env_def lowercase_service_def plain_record_def new_Set_def Set_add_def)

section \<open>The retrieval endpoints\<close>

lemma date_key_not_inherited: "is_date_key date \<Longrightarrow> date \<notin> set Object_prototype_keys"
  by (auto simp: is_date_key_def Object_prototype_keys_def is_digit_def)

text \<open>
  Claim C8. For every date string (YYYY-MM-DD) and every History Store that can be read,
  \<open>getWords\<close> answers with exactly the records stored under the date when the date is a
  key, and with the 404 error otherwise.
\<close>

theorem getWords_found_or_not_found:
  assumes "is_date_key date" and "loadJsonFile history_file [] = Inr h"
  shows "getWords history_file date =
           (case map_of h date of
              Some records \<Rightarrow> Ok_words records
            | None \<Rightarrow> Status_404 ''No words found for this date.'')"
  using assms date_key_not_inherited [of date]
  by (simp add: getWords_def get_property_def split: option.splits)


theorem getWords_found_or_not_found_witness:
  "is_date_key ''2099-01-01'' \<and> is_date_key ''2024-01-02'' \<and>
   getWords (Holds two_days) ''2099-01-01'' = Status_404 ''No words found for this date.'' \<and>
   getWords (Holds two_days) ''2024-01-02'' = Ok_words three_records \<and>
   getWords ENOENT ''2099-01-01'' = Status_404 ''No words found for this date.''"
  using getWords_found_or_not_found [of "''2099-01-01''" "Holds two_days" two_days]
    getWords_found_or_not_found [of "''2024-01-02''" "Holds two_days" two_days]
    getWords_found_or_not_found [of "''2099-01-01''" ENOENT "[]"]
  by (simp add: is_date_key_def is_digit_def loadJsonFile_def two_days_def)


lemma localeCompare_pos: "localeCompare b a > 0 \<longleftrightarrow> a < b"
  by (auto simp: localeCompare_def)

lemma mset_insert_sorted: "mset (insert_sorted compare x ys) = add_mset x (mset ys)"
  by (induction ys) simp_all

lemma set_insert_sorted: "set (insert_sorted compare x ys) = insert x (set ys)"
  by (induction ys) auto

lemma insert_sorted_descending:
  "sorted_wrt (\<lambda>a b. b \<le> a) ys \<Longrightarrow>
   sorted_wrt (\<lambda>a b. b \<le> a) (insert_sorted (\<lambda>a b. localeCompare b a) x ys)"
  by (induction ys) (auto simp: localeCompare_pos set_insert_sorted)

lemma mset_sort_with: "mset (sort_with compare xs) = mset xs"
  by (induction xs) (simp_all add: sort_with_def mset_insert_sorted)

lemma sort_with_descending:
  "sorted_wrt (\<lambda>a b. b \<le> a) (sort_with (\<lambda>a b. localeCompare b a) xs)"
  by (induction xs) (simp_all add: sort_with_def insert_sorted_descending)

lemma strictly_descending:
  "sorted_wrt (\<lambda>a b. b \<le> a) xs \<Longrightarrow> distinct xs \<Longrightarrow> sorted_wrt (\<lambda>a b. b < (a::string)) xs"
  by (induction xs) (auto simp: less_le)

text \<open>
  Claim C9. For every History Store that can be read, \<open>listDates\<close> answers with the keys
  of the store, each as often as the store has it, in descending order; strictly
  descending when no key is there twice, and with no date when the store is empty.
\<close>

theorem listDates_descending:
  assumes "loadJsonFile history_file [] = Inr h"
  shows "\<exists>dates. listDates history_file = Ok_dates dates \<and>
           mset dates = mset (map fst h) \<and>
           sorted_wrt (\<lambda>a b. b \<le> a) dates \<and>
           (distinct (map fst h) \<longrightarrow> sorted_wrt (\<lambda>a b. b < a) dates) \<and>
           (h = [] \<longrightarrow> dates = [])"
proof -
  let ?dates = "sort_with (\<lambda>a b. localeCompare b a) (Object_keys h)"
  have run: "listDates history_file = Ok_dates ?dates"
    using assms by (simp add: listDates_def)
  have perm: "mset ?dates = mset (map fst h)"
    by (simp add: mset_sort_with Object_keys_def)
  have desc: "sorted_wrt (\<lambda>a b. b \<le> a) ?dates"
    by (rule sort_with_descending)
  have strict: "sorted_wrt (\<lambda>a b. b < a) ?dates" if "distinct (map fst h)"
  proof -
    from perm that have "distinct ?dates" by (metis mset_eq_imp_distinct_iff)
    with desc show ?thesis by (rule strictly_descending)
  qed
  have "?dates = []" if "h = []"
    using that by (simp add: sort_with_def Object_keys_def)
  with run perm desc strict show ?thesis by blast
qed


theorem listDates_descending_witness:
  "listDates (Holds two_days) = Ok_dates [''2024-01-02'', ''2024-01-01''] \<and>
   mset [''2024-01-02'', ''2024-01-01''] = mset (map fst two_days) \<and>
   listDates ENOENT = Ok_dates []"
  using listDates_descending [of "Holds two_days" two_days] listDates_descending [of ENOENT "[]"]
  by (simp add: listDates_def loadJsonFile_def Object_keys_def sort_with_def localeCompare_def
      two_days_def)


end
